theory Spec2Isabelle
  imports Complex_Main
begin

section \<open>RadTTSModel: the training and inference wrapper of radtts.py\<close>

text \<open>
  A shallow embedding of \<^verbatim>\<open>nemo/collections/tts/models/radtts.py\<close>. Tensors of a batch are
  values of an abstract type \<open>'t\<close>; scalar loss tensors and Python floats (weights, learning
  rate, sigma) are values of a numeric type \<open>'a\<close> with exact arithmetic, so rounding is
  not modelled. The sub-modules the class calls (the synthesis network, the criterion, the
  attention loss, the tokenizer) and the torch primitives it uses are fields of the
  record that stands for \<^verbatim>\<open>self\<close>. What a method does besides returning (calling the
  network, \<^verbatim>\<open>self.log\<close>, \<^verbatim>\<open>logging.info\<close>, \<^verbatim>\<open>logging.warning\<close>, \<^verbatim>\<open>add_image\<close>) is a
  list of events, in the order of the calls; an exception is a value \<open>Inl e\<close>.
\<close>

subsection \<open>Python values: exceptions, lists, dicts\<close>

datatype py_error = IndexError | KeyError | TypeError | NameError | SystemExit int

definition bind_result :: "py_error + 'x \<Rightarrow> ('x \<Rightarrow> py_error + 'y) \<Rightarrow> py_error + 'y" where
  "bind_result r f = (case r of Inl e \<Rightarrow> Inl e | Inr x \<Rightarrow> f x)"

text \<open>\<^verbatim>\<open>xs[i]\<close> for a literal index \<open>i \<ge> 0\<close>: IndexError out of range.\<close>

definition getitem :: "'x list \<Rightarrow> nat \<Rightarrow> py_error + 'x" where
  "getitem xs i = (if i < length xs then Inr (xs ! i) else Inl IndexError)"

text \<open>
  A dict is an association list in insertion order (its keys are distinct).
  \<^verbatim>\<open>d[k]\<close> raises KeyError on a missing key; \<^verbatim>\<open>d[k] = v\<close> replaces the value of a
  key in place and appends a new key at the end.
\<close>

definition lookup :: "(string \<times> 'v) list \<Rightarrow> string \<Rightarrow> py_error + 'v" where
  "lookup d k = (case map_of d k of None \<Rightarrow> Inl KeyError | Some v \<Rightarrow> Inr v)"

fun setitem :: "string \<Rightarrow> 'v \<Rightarrow> (string \<times> 'v) list \<Rightarrow> (string \<times> 'v) list" where
  "setitem k v [] = [(k, v)]"
| "setitem k v ((k', v') # d) = (if k' = k then (k, v) # d else (k', v') # setitem k v d)"

subsection \<open>The model object\<close>

text \<open>The keyword and positional arguments of \<^verbatim>\<open>self.model(...)\<close>.\<close>

record 't forward_args =
  arg_mel :: 't
  arg_speaker_ids :: 't
  arg_text :: 't
  arg_in_lens :: 't
  arg_out_lens :: 't
  binarize_attention :: bool
  attn_prior :: 't
  f0 :: 't
  energy_avg :: 't
  voiced_mask :: 't
  p_voiced :: 't

text \<open>The keys of the network's output dict that this file reads.\<close>

record 't outputs =
  attn :: 't
  attn_soft :: 't
  mel :: 't

text \<open>\<^verbatim>\<open>cfg.trainerConfig\<close> and \<^verbatim>\<open>cfg.optim\<close>, the fields this file reads.\<close>

record trainerConfig =
  binarization_start_iter :: int
  kl_loss_start_iter :: int
  finetune_layers :: "string list"

record 'a optim_cfg =
  name :: string
  lr :: 'a
  weight_decay :: 'a

text \<open>
  \<^verbatim>\<open>self\<close>. \<open>tensor\<close> is \<^verbatim>\<open>torch.tensor(xs)\<close> moved to the model's device
  (\<^verbatim>\<open>.long().cuda().to(self.device)\<close>), \<open>size0\<close> is \<^verbatim>\<open>t.size(0)\<close>, \<open>unsqueeze0\<close> is
  \<^verbatim>\<open>t.unsqueeze(0)\<close>. The criterion returns the loss terms, name to (value, weight).
  \<open>text_normalizer_call\<close> has its keyword arguments applied. The \<^verbatim>\<open>typecheck\<close>
  decorator of generate_spectrogram is defined in \<^verbatim>\<open>nemo.core.classes.common\<close>, outside
  this file, so its two checks are parameters: \<open>typecheck_inputs\<close> tells whether it
  accepts a call (given whether the arguments are passed by keyword, and the arguments),
  \<open>typecheck_outputs\<close> whether it accepts the result.
\<close>

record ('t, 'a) radtts =
  train_config :: trainerConfig
  optim :: "'a optim_cfg"
  global_step :: int
  training :: bool
  log_train_images :: bool
  model :: "'t forward_args \<Rightarrow> 't outputs"
  infer :: "'t \<Rightarrow> 't \<Rightarrow> 'a \<Rightarrow> 't outputs"
  criterion :: "'t outputs \<Rightarrow> 't \<Rightarrow> 't \<Rightarrow> (string \<times> 'a \<times> 'a) list"
  attention_kl_loss :: "'t \<Rightarrow> 't \<Rightarrow> 'a"
  tokenizer :: "string \<Rightarrow> int list"
  text_normalizer_call :: "(string \<Rightarrow> string) option"
  tensor :: "int list \<Rightarrow> 't"
  size0 :: "'t \<Rightarrow> nat"
  unsqueeze0 :: "'t \<Rightarrow> 't"
  typecheck_inputs :: "bool \<Rightarrow> 't \<Rightarrow> int \<Rightarrow> 'a \<Rightarrow> bool"
  typecheck_outputs :: "'t \<Rightarrow> bool"

datatype ('t, 'a) event =
    Forward "'t forward_args"
  | Log string 'a
  | Info string
  | Warning string
  | Add_image string 't int

subsection \<open>batch_dict\<close>

text \<open>
  Lines 87-108. The speaker id is read or made first, then the dict literal reads
  \<^verbatim>\<open>batch_data[0]\<close> to \<^verbatim>\<open>batch_data[12]\<close> in order.
\<close>

definition batch_dict :: "('t, 'a) radtts \<Rightarrow> 't list \<Rightarrow> py_error + (string \<times> 't) list" where
  "batch_dict self batch_data =
    bind_result
      (if length batch_data < 14
       then bind_result (getitem batch_data 3)
              (\<lambda>text_lens. Inr (tensor self (replicate (size0 self text_lens) 0)))
       else getitem batch_data 13) (\<lambda>spk_id.
    bind_result (getitem batch_data 0) (\<lambda>b0.
    bind_result (getitem batch_data 1) (\<lambda>b1.
    bind_result (getitem batch_data 2) (\<lambda>b2.
    bind_result (getitem batch_data 3) (\<lambda>b3.
    bind_result (getitem batch_data 4) (\<lambda>b4.
    bind_result (getitem batch_data 5) (\<lambda>b5.
    bind_result (getitem batch_data 6) (\<lambda>b6.
    bind_result (getitem batch_data 7) (\<lambda>b7.
    bind_result (getitem batch_data 8) (\<lambda>b8.
    bind_result (getitem batch_data 9) (\<lambda>b9.
    bind_result (getitem batch_data 10) (\<lambda>b10.
    bind_result (getitem batch_data 11) (\<lambda>b11.
    bind_result (getitem batch_data 12) (\<lambda>b12.
    Inr [(''audio'', b0),
         (''audio_lens'', b1),
         (''text'', b2),
         (''text_lens'', b3),
         (''log_mel'', b4),
         (''log_mel_lens'', b5),
         (''align_prior_matrix'', b6),
         (''pitch'', b7),
         (''pitch_lens'', b8),
         (''voiced_mask'', b9),
         (''p_voiced'', b10),
         (''energy'', b11),
         (''energy_lens'', b12),
         (''speaker_id'', spk_id)]))))))))))))))"

subsection \<open>The phase flags\<close>

text \<open>Lines 123-131 of training_step.\<close>

definition training_binarize :: "('t, 'a) radtts \<Rightarrow> bool" where
  "training_binarize self =
    (if binarization_start_iter (train_config self) \<ge> 0
        \<and> global_step self \<ge> binarization_start_iter (train_config self)
     then True else False)"

text \<open>Lines 178-186 of validation_step.\<close>

definition validation_binarize :: "('t, 'a) radtts \<Rightarrow> bool" where
  "validation_binarize self =
    (if binarization_start_iter (train_config self) \<ge> 0
        \<and> global_step self \<ge> binarization_start_iter (train_config self)
     then True else False)"

text \<open>The condition of line 153 (training_step), for a computed \<open>binarize\<close>.\<close>

definition training_kl_condition :: "('t, 'a) radtts \<Rightarrow> bool \<Rightarrow> bool" where
  "training_kl_condition self binarize =
    (binarize \<and> global_step self \<ge> kl_loss_start_iter (train_config self))"

text \<open>The condition of lines 207-211 (validation_step).\<close>

definition validation_kl_condition :: "('t, 'a) radtts \<Rightarrow> bool \<Rightarrow> bool" where
  "validation_kl_condition self binarize =
    (binarize
      \<and> kl_loss_start_iter (train_config self) \<ge> 0
      \<and> global_step self \<ge> kl_loss_start_iter (train_config self))"

subsection \<open>The loss\<close>

text \<open>
  The loop of lines 148-151 and 202-205 (the same text in both steps), from
  \<^verbatim>\<open>loss = None\<close>: the first term with a positive weight sets the loss, later ones add.
\<close>

fun weighted_loop :: "'a::{plus,times,zero,ord} option \<Rightarrow> (string \<times> 'a \<times> 'a) list \<Rightarrow> 'a option" where
  "weighted_loop loss [] = loss"
| "weighted_loop loss ((k, (v, w)) # rest) =
     weighted_loop
       (if w > 0 then (case loss of None \<Rightarrow> Some (v * w) | Some l \<Rightarrow> Some (l + v * w))
        else loss)
       rest"

definition weighted_total :: "(string \<times> 'a::{plus,times,zero,ord} \<times> 'a) list \<Rightarrow> 'a option" where
  "weighted_total loss_outputs = weighted_loop None loss_outputs"

text \<open>
  Lines 153-157 and 207-215: the pair (loss, binarization_loss) after the branch on the
  condition. \<^verbatim>\<open>loss += binarization_loss\<close> and \<^verbatim>\<open>torch.zeros_like(loss)\<close> both raise
  TypeError when \<^verbatim>\<open>loss\<close> is still None. The attention loss is computed in the first
  branch only; it is a pure value here.
\<close>

definition add_binarization :: "bool \<Rightarrow> 'a::{plus,zero} option \<Rightarrow> 'a \<Rightarrow> py_error + ('a \<times> 'a)" where
  "add_binarization active loss kl =
    (if active
     then (case loss of None \<Rightarrow> Inl TypeError | Some l \<Rightarrow> Inr (l + kl, kl))
     else (case loss of None \<Rightarrow> Inl TypeError | Some l \<Rightarrow> Inr (l, 0)))"

subsection \<open>training_step\<close>

text \<open>
  Lines 111-121 and the arguments of the call of lines 133-145; \<open>binarize\<close> is the flag
  computed in between.
\<close>

definition training_inputs :: "('t, 'a) radtts \<Rightarrow> bool \<Rightarrow> 't list \<Rightarrow> py_error + 't forward_args" where
  "training_inputs self binarize batch_data =
    bind_result (batch_dict self batch_data) (\<lambda>batch.
    bind_result (lookup batch ''log_mel'') (\<lambda>v_mel.
    bind_result (lookup batch ''speaker_id'') (\<lambda>speaker_ids.
    bind_result (lookup batch ''text'') (\<lambda>v_text.
    bind_result (lookup batch ''text_lens'') (\<lambda>in_lens.
    bind_result (lookup batch ''log_mel_lens'') (\<lambda>out_lens.
    bind_result (lookup batch ''align_prior_matrix'') (\<lambda>v_attn_prior.
    bind_result (lookup batch ''pitch'') (\<lambda>v_f0.
    bind_result (lookup batch ''voiced_mask'') (\<lambda>v_voiced_mask.
    bind_result (lookup batch ''p_voiced'') (\<lambda>v_p_voiced.
    bind_result (lookup batch ''energy'') (\<lambda>v_energy_avg.
    Inr \<lparr>arg_mel = v_mel,
         arg_speaker_ids = speaker_ids,
         arg_text = v_text,
         arg_in_lens = in_lens,
         arg_out_lens = out_lens,
         binarize_attention = binarize,
         attn_prior = v_attn_prior,
         f0 = v_f0,
         energy_avg = v_energy_avg,
         voiced_mask = v_voiced_mask,
         p_voiced = v_p_voiced\<rparr>)))))))))))"

text \<open>
  Line 158, and the loop of lines 160-161: one \<^verbatim>\<open>self.log\<close> per key of the dict, with the
  first component of its pair.
\<close>

definition training_loss_outputs :: "(string \<times> 'a \<times> 'a::one) list \<Rightarrow> 'a \<Rightarrow> (string \<times> 'a \<times> 'a) list" where
  "training_loss_outputs loss_outputs binarization_loss =
    setitem ''binarization_loss'' (binarization_loss, 1) loss_outputs"

definition log_train :: "(string \<times> 'a \<times> 'a) list \<Rightarrow> ('t, 'a) event list" where
  "log_train loss_outputs = map (\<lambda>(k, (v, w)). Log (''train/'' @ k) v) loss_outputs"

text \<open>
  Lines 110-162: the body of training_step up to its return statement, with the values
  its local variables \<open>binarize\<close>, \<open>loss_outputs\<close> and \<open>loss\<close> have there.
\<close>

definition training_step_locals ::
  "('t, 'a::{plus,times,zero,one,ord}) radtts \<Rightarrow> 't list \<Rightarrow> nat
     \<Rightarrow> ('t, 'a) event list \<times> (py_error + bool \<times> (string \<times> 'a \<times> 'a) list \<times> 'a)" where
  "training_step_locals self batch_data batch_idx =
    (let binarize = training_binarize self in
     case training_inputs self binarize batch_data of
       Inl e \<Rightarrow> ([], Inl e)
     | Inr args \<Rightarrow>
        (let outputs = model self args;
             loss_outputs = criterion self outputs (arg_in_lens args) (arg_out_lens args);
             loss = weighted_total loss_outputs
         in case add_binarization (training_kl_condition self binarize) loss
                   (attention_kl_loss self (attn outputs) (attn_soft outputs)) of
              Inl e \<Rightarrow> ([Forward args], Inl e)
            | Inr (loss', binarization_loss) \<Rightarrow>
                (let loss_outputs' = training_loss_outputs loss_outputs binarization_loss
                 in (Forward args # log_train loss_outputs',
                     Inr (binarize, loss_outputs', loss')))))"

text \<open>Lines 110-163; the result is the value under \<^verbatim>\<open>'loss'\<close> of the returned dict.\<close>

definition training_step ::
  "('t, 'a::{plus,times,zero,one,ord}) radtts \<Rightarrow> 't list \<Rightarrow> nat
     \<Rightarrow> ('t, 'a) event list \<times> (py_error + 'a)" where
  "training_step self batch_data batch_idx =
    (case training_step_locals self batch_data batch_idx of
       (evs, Inl e) \<Rightarrow> (evs, Inl e)
     | (evs, Inr (binarize, loss_outputs, loss)) \<Rightarrow> (evs, Inr loss))"

subsection \<open>validation_step\<close>

text \<open>
  Lines 167-177 and the arguments of the call of lines 187-199, where
  \<^verbatim>\<open>binarize_attention=True\<close> is a literal.
\<close>

definition validation_inputs :: "('t, 'a) radtts \<Rightarrow> 't list \<Rightarrow> py_error + 't forward_args" where
  "validation_inputs self batch_data =
    bind_result (batch_dict self batch_data) (\<lambda>batch.
    bind_result (lookup batch ''speaker_id'') (\<lambda>speaker_ids.
    bind_result (lookup batch ''text'') (\<lambda>v_text.
    bind_result (lookup batch ''text_lens'') (\<lambda>in_lens.
    bind_result (lookup batch ''log_mel_lens'') (\<lambda>out_lens.
    bind_result (lookup batch ''align_prior_matrix'') (\<lambda>v_attn_prior.
    bind_result (lookup batch ''pitch'') (\<lambda>v_f0.
    bind_result (lookup batch ''voiced_mask'') (\<lambda>v_voiced_mask.
    bind_result (lookup batch ''p_voiced'') (\<lambda>v_p_voiced.
    bind_result (lookup batch ''energy'') (\<lambda>v_energy_avg.
    bind_result (lookup batch ''log_mel'') (\<lambda>v_mel.
    Inr \<lparr>arg_mel = v_mel,
         arg_speaker_ids = speaker_ids,
         arg_text = v_text,
         arg_in_lens = in_lens,
         arg_out_lens = out_lens,
         binarize_attention = True,
         attn_prior = v_attn_prior,
         f0 = v_f0,
         energy_avg = v_energy_avg,
         voiced_mask = v_voiced_mask,
         p_voiced = v_p_voiced\<rparr>)))))))))))"

text \<open>
  A value of the returned \<^verbatim>\<open>loss_outputs\<close>: a pair (value, weight) as the criterion
  made it, or the bare tensor stored at line 216.
\<close>

datatype 'a loss_entry = Weighted 'a 'a | Bare 'a

text \<open>The dict returned by validation_step, by key.\<close>

record ('t, 'a) validation_output =
  out_loss_outputs :: "(string \<times> 'a loss_entry) list"
  out_attn :: "'t option"
  out_attn_soft :: "'t option"
  out_audiopaths :: "string option"

text \<open>Line 216.\<close>

definition validation_loss_outputs :: "(string \<times> 'a \<times> 'a) list \<Rightarrow> 'a \<Rightarrow> (string \<times> 'a loss_entry) list" where
  "validation_loss_outputs loss_outputs binarization_loss =
    setitem ''binarization_loss'' (Bare binarization_loss)
      (map (\<lambda>(k, (v, w)). (k, Weighted v w)) loss_outputs)"

text \<open>
  Lines 165-223: the body of validation_step, with the values its local variables
  \<open>binarize\<close> and \<open>loss\<close> have at the return statement, and the dict it returns.
\<close>

definition validation_step_locals ::
  "('t, 'a::{plus,times,zero,ord}) radtts \<Rightarrow> 't list \<Rightarrow> nat
     \<Rightarrow> ('t, 'a) event list \<times> (py_error + bool \<times> 'a \<times> ('t, 'a) validation_output)" where
  "validation_step_locals self batch_data batch_idx =
    (case validation_inputs self batch_data of
       Inl e \<Rightarrow> ([], Inl e)
     | Inr args \<Rightarrow>
        (let binarize = validation_binarize self;
             outputs = model self args;
             loss_outputs = criterion self outputs (arg_in_lens args) (arg_out_lens args);
             loss = weighted_total loss_outputs
         in case add_binarization (validation_kl_condition self binarize) loss
                   (attention_kl_loss self (attn outputs) (attn_soft outputs)) of
              Inl e \<Rightarrow> ([Forward args], Inl e)
            | Inr (loss', binarization_loss) \<Rightarrow>
                ([Forward args],
                 Inr (binarize, loss',
                      \<lparr>out_loss_outputs = validation_loss_outputs loss_outputs binarization_loss,
                       out_attn = (if batch_idx = 0 then Some (attn outputs) else None),
                       out_attn_soft = (if batch_idx = 0 then Some (attn_soft outputs) else None),
                       out_audiopaths = (if batch_idx = 0 then Some ''audio_1'' else None)\<rparr>))))"

text \<open>Lines 165-223: the loss is computed and not returned.\<close>

definition validation_step ::
  "('t, 'a::{plus,times,zero,ord}) radtts \<Rightarrow> 't list \<Rightarrow> nat
     \<Rightarrow> ('t, 'a) event list \<times> (py_error + ('t, 'a) validation_output)" where
  "validation_step self batch_data batch_idx =
    (case validation_step_locals self batch_data batch_idx of
       (evs, Inl e) \<Rightarrow> (evs, Inl e)
     | (evs, Inr (binarize, loss, result)) \<Rightarrow> (evs, Inr result))"

subsection \<open>validation_epoch_end\<close>

text \<open>
  \<^verbatim>\<open>loss_outputs[k][0]\<close>: the value of a pair; a loss is a scalar (0-dim) tensor, which
  cannot be indexed.
\<close>

fun index0 :: "'a loss_entry \<Rightarrow> py_error + 'a" where
  "index0 (Weighted v w) = Inr v"
| "index0 (Bare t) = Inl IndexError"

text \<open>The loop of lines 229-231: the events so far, and the exception that ended it, if any.\<close>

fun log_val :: "(string \<times> 'a loss_entry) list \<Rightarrow> ('t, 'a) event list \<times> (py_error + unit)" where
  "log_val [] = ([], Inr ())"
| "log_val ((k, e) # rest) =
     (if k \<noteq> ''binarization_loss''
      then (case index0 e of
              Inl err \<Rightarrow> ([], Inl err)
            | Inr v \<Rightarrow> (case log_val rest of (evs, r) \<Rightarrow> (Log (''val/'' @ k) v # evs, r)))
      else log_val rest)"

text \<open>
  Lines 225-249, with a TensorBoard logger present. \<^verbatim>\<open>attn[0, 0]\<close> raises TypeError on
  None. The image of an event is the attention map it is plotted from.
\<close>

definition validation_epoch_end ::
  "('t, 'a) radtts \<Rightarrow> ('t, 'a) validation_output list
     \<Rightarrow> ('t, 'a) event list \<times> (py_error + ('t, 'a) radtts)" where
  "validation_epoch_end self outs =
    (case getitem outs 0 of
       Inl e \<Rightarrow> ([], Inl e)
     | Inr out0 \<Rightarrow>
        (case log_val (out_loss_outputs out0) of
           (evs, Inl e) \<Rightarrow> (evs, Inl e)
         | (evs, Inr u) \<Rightarrow>
            (case out_attn out0 of
               None \<Rightarrow> (evs, Inl TypeError)
             | Some attn0 \<Rightarrow>
                (case out_attn_soft out0 of
                   None \<Rightarrow>
                     (evs @ [Add_image ''attention_weights_mas'' attn0 (global_step self)],
                      Inl TypeError)
                 | Some attn_soft0 \<Rightarrow>
                     (evs @ [Add_image ''attention_weights_mas'' attn0 (global_step self),
                             Add_image ''attention_weights'' attn_soft0 (global_step self)],
                      Inr (self\<lparr>log_train_images := True\<rparr>))))))"

subsection \<open>configure_optimizers\<close>

text \<open>An optimizer over \<^verbatim>\<open>self.model.parameters()\<close>, with its lr and weight_decay.\<close>

datatype 'a optimizer = Adam 'a 'a | RAdam 'a 'a

text \<open>
  Lines 251-270. With a non-empty \<^verbatim>\<open>finetune_layers\<close>, line 254 reads the name
  \<^verbatim>\<open>model\<close>, which the module does not define: NameError. \<^verbatim>\<open>exit(1)\<close> raises SystemExit.
\<close>

definition configure_optimizers ::
  "('t, 'a) radtts \<Rightarrow> ('t, 'a) event list \<times> (py_error + 'a optimizer)" where
  "configure_optimizers self =
    (let started = [Info (''Initializing '' @ name (optim self) @ '' optimizer'')] in
     if length (finetune_layers (train_config self)) \<noteq> 0 then (started, Inl NameError)
     else if name (optim self) = ''Adam''
       then (started, Inr (Adam (lr (optim self)) (weight_decay (optim self))))
     else if name (optim self) = ''RAdam''
       then (started, Inr (RAdam (lr (optim self)) (weight_decay (optim self))))
     else (started @ [Info (''Unrecognized optimizer '' @ name (optim self) @ ''!'')],
           Inl (SystemExit 1)))"

subsection \<open>generate_spectrogram and parse\<close>

text \<open>
  Lines 303-312, the function under the decorator. \<^verbatim>\<open>self.eval()\<close> comes first and
  clears the training flag; the test of line 306 reads the flag after it. The result is
  the model after the call, the events and the spectrogram.
\<close>

definition generate_spectrogram_body ::
  "('t, 'a) radtts \<Rightarrow> 't \<Rightarrow> int \<Rightarrow> 'a \<Rightarrow> ('t, 'a) radtts \<times> ('t, 'a) event list \<times> 't" where
  "generate_spectrogram_body self tokens speaker sigma =
    (let self1 = self\<lparr>training := False\<rparr>;
         evs = (if training self1
                then [Warning ''generate_spectrogram() is meant to be called in eval mode.'']
                else []);
         speaker_t = tensor self1 [speaker];
         outputs = infer self1 speaker_t tokens sigma
     in (self1, evs, mel outputs))"

text \<open>
  Lines 295-312, the decorated method. The decorator raises TypeError on a call it does
  not accept, before the body runs, and on a result it does not accept, after it.
\<close>

definition generate_spectrogram ::
  "('t, 'a) radtts \<Rightarrow> bool \<Rightarrow> 't \<Rightarrow> int \<Rightarrow> 'a
     \<Rightarrow> ('t, 'a) radtts \<times> ('t, 'a) event list \<times> (py_error + 't)" where
  "generate_spectrogram self by_keyword tokens speaker sigma =
    (if typecheck_inputs self by_keyword tokens speaker sigma
     then (case generate_spectrogram_body self tokens speaker sigma of
             (self1, evs, spect) \<Rightarrow>
               if typecheck_outputs self1 spect then (self1, evs, Inr spect)
               else (self1, evs, Inl TypeError))
     else (self, [], Inl TypeError))"

text \<open>Lines 368-373.\<close>

definition parse :: "('t, 'a) radtts \<Rightarrow> string \<Rightarrow> bool \<Rightarrow> ('t, 'a) event list \<times> 't" where
  "parse self txt normalize_arg =
    (let evs = (if training self
                then [Warning ''parse() is meant to be called in eval mode.'']
                else []);
         txt1 = (if normalize_arg
                 then (case text_normalizer_call self of None \<Rightarrow> txt | Some f \<Rightarrow> f txt)
                 else txt)
     in (evs, unsqueeze0 self (tensor self (tokenizer self txt1))))"

subsection \<open>Vocabulary for the statements\<close>

text \<open>
  For a batch of at least 13 tensors: the speaker id that batch_dict stores, the arguments
  a step passes to the network, the loss terms the criterion then returns and the
  attention loss of the outputs (each proved below to be what the step computes), and the
  contract's formula for the total: the sum of value times weight over the terms with a
  positive weight, undefined when there is none.
\<close>

definition speaker_of :: "('t, 'a) radtts \<Rightarrow> 't list \<Rightarrow> 't" where
  "speaker_of self batch_data =
    (if length batch_data < 14 then tensor self (replicate (size0 self (batch_data ! 3)) 0)
     else batch_data ! 13)"

definition forward_args_of :: "('t, 'a) radtts \<Rightarrow> bool \<Rightarrow> 't list \<Rightarrow> 't forward_args" where
  "forward_args_of self flag batch_data =
    \<lparr>arg_mel = batch_data ! 4,
     arg_speaker_ids = speaker_of self batch_data,
     arg_text = batch_data ! 2,
     arg_in_lens = batch_data ! 3,
     arg_out_lens = batch_data ! 5,
     binarize_attention = flag,
     attn_prior = batch_data ! 6,
     f0 = batch_data ! 7,
     energy_avg = batch_data ! 11,
     voiced_mask = batch_data ! 9,
     p_voiced = batch_data ! 10\<rparr>"

definition training_terms :: "('t, 'a) radtts \<Rightarrow> 't list \<Rightarrow> (string \<times> 'a \<times> 'a) list" where
  "training_terms self batch_data =
    criterion self (model self (forward_args_of self (training_binarize self) batch_data))
      (batch_data ! 3) (batch_data ! 5)"

definition training_kl :: "('t, 'a) radtts \<Rightarrow> 't list \<Rightarrow> 'a" where
  "training_kl self batch_data =
    (let outputs = model self (forward_args_of self (training_binarize self) batch_data)
     in attention_kl_loss self (attn outputs) (attn_soft outputs))"

definition validation_terms :: "('t, 'a) radtts \<Rightarrow> 't list \<Rightarrow> (string \<times> 'a \<times> 'a) list" where
  "validation_terms self batch_data =
    criterion self (model self (forward_args_of self True batch_data))
      (batch_data ! 3) (batch_data ! 5)"

definition validation_kl :: "('t, 'a) radtts \<Rightarrow> 't list \<Rightarrow> 'a" where
  "validation_kl self batch_data =
    (let outputs = model self (forward_args_of self True batch_data)
     in attention_kl_loss self (attn outputs) (attn_soft outputs))"

definition positive_weight :: "string \<times> 'a::{zero,ord} \<times> 'a \<Rightarrow> bool" where
  "positive_weight term = (case term of (k, (v, w)) \<Rightarrow> 0 < w)"

definition weighted_sum :: "(string \<times> 'a::{monoid_add,times,ord} \<times> 'a) list \<Rightarrow> 'a" where
  "weighted_sum loss_outputs =
    sum_list (map (\<lambda>(k, (v, w)). v * w) (filter positive_weight loss_outputs))"

definition spec_total :: "(string \<times> 'a::{monoid_add,times,ord} \<times> 'a) list \<Rightarrow> 'a option" where
  "spec_total loss_outputs =
    (if list_ex positive_weight loss_outputs then Some (weighted_sum loss_outputs) else None)"

text \<open>The events that are \<^verbatim>\<open>self.log\<close> calls; the entries that are bare tensors.\<close>

fun is_log :: "('t, 'a) event \<Rightarrow> bool" where
  "is_log (Log k v) = True"
| "is_log ev = False"

fun is_bare :: "'a loss_entry \<Rightarrow> bool" where
  "is_bare (Bare t) = True"
| "is_bare (Weighted v w) = False"

subsection \<open>Concrete models and batches\<close>

text \<open>
  A small instance: a tensor is a list of integers, a loss is a real. The criterion
  returns the mapping a: (2.0, 1.0), b: (3.0, 0.0) and the attention loss is 5. The
  decorator accepts a call by keyword with a non-empty token tensor, and a non-empty result.
\<close>

definition toy_model :: "(int list, real) radtts" where
  "toy_model =
    \<lparr>train_config = \<lparr>binarization_start_iter = 2, kl_loss_start_iter = 4, finetune_layers = []\<rparr>,
     optim = \<lparr>name = ''Adam'', lr = 1 / 1000, weight_decay = 0\<rparr>,
     global_step = 0,
     training = True,
     log_train_images = False,
     model = (\<lambda>args. \<lparr>attn = arg_text args, attn_soft = attn_prior args, mel = arg_mel args\<rparr>),
     infer = (\<lambda>spk toks sigma. \<lparr>attn = toks, attn_soft = toks, mel = spk @ toks\<rparr>),
     criterion = (\<lambda>outs in_lens out_lens. [(''a'', (2, 1)), (''b'', (3, 0))]),
     attention_kl_loss = (\<lambda>hard soft. 5),
     tokenizer = map (\<lambda>c. int (of_char c)),
     text_normalizer_call = None,
     tensor = (\<lambda>xs. xs),
     size0 = length,
     unsqueeze0 = (\<lambda>t. t),
     typecheck_inputs = (\<lambda>by_keyword toks spk sigma. by_keyword \<and> toks \<noteq> []),
     typecheck_outputs = (\<lambda>spect. spect \<noteq> [])\<rparr>"

definition at_step :: "int \<Rightarrow> int \<Rightarrow> int \<Rightarrow> (int list, real) radtts" where
  "at_step bin_start kl_start step =
    toy_model\<lparr>train_config := \<lparr>binarization_start_iter = bin_start, kl_loss_start_iter = kl_start,
                               finetune_layers = []\<rparr>,
              global_step := step\<rparr>"

definition batch13 :: "int list list" where
  "batch13 = [[0], [1], [2], [3, 3], [4], [5], [6], [7], [8], [9], [10], [11], [12]]"

definition batch14 :: "int list list" where
  "batch14 = batch13 @ [[7, 8]]"

definition zero_weight_model :: "(int list, real) radtts" where
  "zero_weight_model = toy_model\<lparr>criterion := (\<lambda>outs in_lens out_lens. [(''a'', (2, 0))])\<rparr>"

definition finetune_model :: "(int list, real) radtts" where
  "finetune_model =
    toy_model\<lparr>train_config := \<lparr>binarization_start_iter = 2, kl_loss_start_iter = 4,
                               finetune_layers = [''attention'']\<rparr>\<rparr>"

section \<open>Properties\<close>

subsection \<open>What the steps compute\<close>

lemma bind_result_Inl [simp]: "bind_result (Inl e) f = Inl e"
  by (simp add: bind_result_def)

lemma bind_result_Inr [simp]: "bind_result (Inr x) f = f x"
  by (simp add: bind_result_def)

lemma getitem_in_range: "i < length xs \<Longrightarrow> getitem xs i = Inr (xs ! i)"
  by (simp add: getitem_def)

lemma getitem_out_of_range: "length xs \<le> i \<Longrightarrow> getitem xs i = Inl IndexError"
  by (simp add: getitem_def)

lemma batch_dict_ok:
  assumes "13 \<le> length batch_data"
  shows "batch_dict self batch_data =
    Inr [(''audio'', batch_data ! 0),
         (''audio_lens'', batch_data ! 1),
         (''text'', batch_data ! 2),
         (''text_lens'', batch_data ! 3),
         (''log_mel'', batch_data ! 4),
         (''log_mel_lens'', batch_data ! 5),
         (''align_prior_matrix'', batch_data ! 6),
         (''pitch'', batch_data ! 7),
         (''pitch_lens'', batch_data ! 8),
         (''voiced_mask'', batch_data ! 9),
         (''p_voiced'', batch_data ! 10),
         (''energy'', batch_data ! 11),
         (''energy_lens'', batch_data ! 12),
         (''speaker_id'', speaker_of self batch_data)]"
proof -
  have in_range: "getitem batch_data i = Inr (batch_data ! i)" if "i < 13" for i
    using that assms by (simp add: getitem_in_range)
  have spk: "(if length batch_data < 14
       then bind_result (getitem batch_data 3)
              (\<lambda>text_lens. Inr (tensor self (replicate (size0 self text_lens) 0)))
       else getitem batch_data 13) = Inr (speaker_of self batch_data)"
    using assms by (simp add: speaker_of_def getitem_in_range)
  show ?thesis
    unfolding batch_dict_def spk by (simp add: in_range)
qed

lemma training_inputs_ok:
  assumes "13 \<le> length batch_data"
  shows "training_inputs self flag batch_data = Inr (forward_args_of self flag batch_data)"
  unfolding training_inputs_def batch_dict_ok [OF assms]
  by (simp add: lookup_def forward_args_of_def)

lemma validation_inputs_ok:
  assumes "13 \<le> length batch_data"
  shows "validation_inputs self batch_data = Inr (forward_args_of self True batch_data)"
  unfolding validation_inputs_def batch_dict_ok [OF assms]
  by (simp add: lookup_def forward_args_of_def)


lemma weighted_loop_Some:
  fixes l :: "'a::{monoid_add,times,ord}"
  shows "weighted_loop (Some l) loss_outputs =
    Some (l + weighted_sum loss_outputs)"
proof (induction loss_outputs arbitrary: l)
  case Nil
  then show ?case by (simp add: weighted_sum_def)
next
  case (Cons t rest)
  obtain k v w where t: "t = (k, (v, w))" by (cases t) auto
  show ?case
    by (simp add: t Cons.IH positive_weight_def weighted_sum_def add.assoc)
qed

lemma weighted_loop_None:
  fixes loss_outputs :: "(string \<times> 'a::{monoid_add,times,ord} \<times> 'a) list"
  shows "weighted_loop None loss_outputs = spec_total loss_outputs"
proof (induction loss_outputs)
  case Nil
  then show ?case by (simp add: spec_total_def)
next
  case (Cons t rest)
  obtain k v w where t: "t = (k, (v, w))" by (cases t) auto
  show ?case
  proof (cases "0 < w")
    case True
    then show ?thesis
      by (simp add: t weighted_loop_Some spec_total_def weighted_sum_def positive_weight_def)
  next
    case False
    then show ?thesis
      using Cons.IH by (simp add: t spec_total_def weighted_sum_def positive_weight_def)
  qed
qed

lemma forward_args_lens:
  "arg_in_lens (forward_args_of self flag batch_data) = batch_data ! 3"
  "arg_out_lens (forward_args_of self flag batch_data) = batch_data ! 5"
  by (simp_all add: forward_args_of_def)

lemma training_step_locals_eq:
  fixes self :: "('t, 'a::{plus,times,zero,one,ord}) radtts"
  assumes "13 \<le> length batch_data"
  shows "training_step_locals self batch_data batch_idx =
    (case weighted_total (training_terms self batch_data) of
       None \<Rightarrow> ([Forward (forward_args_of self (training_binarize self) batch_data)], Inl TypeError)
     | Some l \<Rightarrow>
        (if training_kl_condition self (training_binarize self)
         then (Forward (forward_args_of self (training_binarize self) batch_data)
                 # log_train (training_loss_outputs (training_terms self batch_data)
                                (training_kl self batch_data)),
               Inr (training_binarize self,
                    training_loss_outputs (training_terms self batch_data)
                      (training_kl self batch_data),
                    l + training_kl self batch_data))
         else (Forward (forward_args_of self (training_binarize self) batch_data)
                 # log_train (training_loss_outputs (training_terms self batch_data) 0),
               Inr (training_binarize self,
                    training_loss_outputs (training_terms self batch_data) 0,
                    l))))"
  unfolding training_step_locals_def Let_def training_inputs_ok [OF assms]
  by (simp add: add_binarization_def training_terms_def training_kl_def forward_args_lens Let_def
        split: option.split)

lemma training_step_eq:
  fixes self :: "('t, 'a::{plus,times,zero,one,ord}) radtts"
  assumes "13 \<le> length batch_data"
  shows "training_step self batch_data batch_idx =
    (case weighted_total (training_terms self batch_data) of
       None \<Rightarrow> ([Forward (forward_args_of self (training_binarize self) batch_data)], Inl TypeError)
     | Some l \<Rightarrow>
        (if training_kl_condition self (training_binarize self)
         then (Forward (forward_args_of self (training_binarize self) batch_data)
                 # log_train (training_loss_outputs (training_terms self batch_data)
                                (training_kl self batch_data)),
               Inr (l + training_kl self batch_data))
         else (Forward (forward_args_of self (training_binarize self) batch_data)
                 # log_train (training_loss_outputs (training_terms self batch_data) 0),
               Inr l)))"
  unfolding training_step_def training_step_locals_eq [OF assms]
  by (simp split: option.split)

lemma validation_step_locals_eq:
  fixes self :: "('t, 'a::{plus,times,zero,ord}) radtts"
  assumes "13 \<le> length batch_data"
  shows "validation_step_locals self batch_data batch_idx =
    (case weighted_total (validation_terms self batch_data) of
       None \<Rightarrow> ([Forward (forward_args_of self True batch_data)], Inl TypeError)
     | Some l \<Rightarrow>
        ([Forward (forward_args_of self True batch_data)],
         Inr (validation_binarize self,
              (if validation_kl_condition self (validation_binarize self)
               then l + validation_kl self batch_data else l),
              \<lparr>out_loss_outputs =
                validation_loss_outputs (validation_terms self batch_data)
                  (if validation_kl_condition self (validation_binarize self)
                   then validation_kl self batch_data else 0),
              out_attn = (if batch_idx = 0
                          then Some (attn (model self (forward_args_of self True batch_data)))
                          else None),
              out_attn_soft = (if batch_idx = 0
                          then Some (attn_soft (model self (forward_args_of self True batch_data)))
                          else None),
              out_audiopaths = (if batch_idx = 0 then Some ''audio_1'' else None)\<rparr>)))"
  unfolding validation_step_locals_def Let_def validation_inputs_ok [OF assms]
  by (simp add: add_binarization_def validation_terms_def validation_kl_def forward_args_lens
        Let_def split: option.split)

lemma validation_step_eq:
  fixes self :: "('t, 'a::{plus,times,zero,ord}) radtts"
  assumes "13 \<le> length batch_data"
  shows "validation_step self batch_data batch_idx =
    (case weighted_total (validation_terms self batch_data) of
       None \<Rightarrow> ([Forward (forward_args_of self True batch_data)], Inl TypeError)
     | Some l \<Rightarrow>
        ([Forward (forward_args_of self True batch_data)],
         Inr \<lparr>out_loss_outputs =
                validation_loss_outputs (validation_terms self batch_data)
                  (if validation_kl_condition self (validation_binarize self)
                   then validation_kl self batch_data else 0),
              out_attn = (if batch_idx = 0
                          then Some (attn (model self (forward_args_of self True batch_data)))
                          else None),
              out_attn_soft = (if batch_idx = 0
                          then Some (attn_soft (model self (forward_args_of self True batch_data)))
                          else None),
              out_audiopaths = (if batch_idx = 0 then Some ''audio_1'' else None)\<rparr>))"
  unfolding validation_step_def validation_step_locals_eq [OF assms]
  by (simp split: option.split)

subsection \<open>Dicts\<close>

lemma map_of_setitem_same: "map_of (setitem k v d) k = Some v"
  by (induction d) auto

lemma lookup_setitem_same: "lookup (setitem k v d) k = Inr v"
  by (simp add: lookup_def map_of_setitem_same)

lemma setitem_keeps_other: "(k', v') \<in> set d \<Longrightarrow> k' \<noteq> k \<Longrightarrow> (k', v') \<in> set (setitem k v d)"
  by (induction d) auto

lemma setitem_member: "(k, v) \<in> set (setitem k v d)"
  by (induction d) auto

lemma setitem_entries:
  assumes "distinct (map fst d)" and "(k', e) \<in> set (setitem k v d)"
  shows "(k' = k \<and> e = v) \<or> (k' \<noteq> k \<and> (k', e) \<in> set d)"
  using assms
proof (induction d)
  case Nil
  then show ?case by simp
next
  case (Cons p rest)
  obtain a b where p: "p = (a, b)" by (cases p)
  show ?case
  proof (cases "a = k")
    case True
    then show ?thesis using Cons.prems by (auto simp: p rev_image_eqI)
  next
    case False
    then show ?thesis using Cons by (auto simp: p)
  qed
qed

subsection \<open>The loop over the loss terms\<close>

lemma weighted_total_spec:
  fixes loss_outputs :: "(string \<times> 'a::{monoid_add,times,ord} \<times> 'a) list"
  shows "weighted_total loss_outputs = spec_total loss_outputs"
  by (simp add: weighted_total_def weighted_loop_None)

lemma weighted_total_Some:
  fixes loss_outputs :: "(string \<times> 'a::{monoid_add,times,ord} \<times> 'a) list"
  assumes "list_ex positive_weight loss_outputs"
  shows "weighted_total loss_outputs = Some (weighted_sum loss_outputs)"
  using assms by (simp add: weighted_total_spec spec_total_def)

lemma weighted_total_None:
  fixes loss_outputs :: "(string \<times> 'a::{monoid_add,times,ord} \<times> 'a) list"
  assumes "\<not> list_ex positive_weight loss_outputs"
  shows "weighted_total loss_outputs = None"
  using assms by (simp add: weighted_total_spec spec_total_def)

subsection \<open>Logged and returned loss terms\<close>

lemma log_train_member:
  assumes "(k, (v, w)) \<in> set loss_outputs" and "k \<noteq> ''binarization_loss''"
  shows "Log (''train/'' @ k) v \<in> set (log_train (training_loss_outputs loss_outputs b))"
proof -
  have "(k, (v, w)) \<in> set (training_loss_outputs loss_outputs b)"
    unfolding training_loss_outputs_def using assms by (rule setitem_keeps_other)
  then have "(\<lambda>(k, (v, w)). Log (''train/'' @ k) v) (k, (v, w))
      \<in> set (log_train (training_loss_outputs loss_outputs b))"
    unfolding log_train_def set_map by (rule imageI)
  then show ?thesis by simp
qed

lemma filter_is_log_train: "filter is_log (log_train loss_outputs) = log_train loss_outputs"
  by (induction loss_outputs) (auto simp: log_train_def)

lemma lookup_validation_binarization:
  "lookup (validation_loss_outputs loss_outputs b) ''binarization_loss'' = Inr (Bare b)"
  by (simp add: validation_loss_outputs_def lookup_setitem_same)

lemma log_val_weighted:
  "log_val (map (\<lambda>(k, (v, w)). (k, Weighted v w)) loss_outputs) =
    (map (\<lambda>(k, (v, w)). Log (''val/'' @ k) v)
       (filter (\<lambda>(k, vw). k \<noteq> ''binarization_loss'') loss_outputs), Inr ())"
  by (induction loss_outputs) auto

lemma log_val_validation:
  "log_val (validation_loss_outputs loss_outputs b) =
    (map (\<lambda>(k, (v, w)). Log (''val/'' @ k) v)
       (filter (\<lambda>(k, vw). k \<noteq> ''binarization_loss'') loss_outputs), Inr ())"
  unfolding validation_loss_outputs_def
proof (induction loss_outputs)
  case Nil
  then show ?case by simp
next
  case (Cons t rest)
  obtain k v w where t: "t = (k, (v, w))" by (cases t) auto
  show ?case
  proof (cases "k = ''binarization_loss''")
    case True
    then show ?thesis by (simp add: t log_val_weighted)
  next
    case False
    then show ?thesis using Cons.IH by (simp add: t)
  qed
qed

lemma log_val_fails_iff:
  "(snd (log_val d :: ('t, 'a) event list \<times> (py_error + unit)) = Inl IndexError) =
    list_ex (\<lambda>(k, e). k \<noteq> ''binarization_loss'' \<and> is_bare e) d"
proof (induction d)
  case Nil
  then show ?case by simp
next
  case (Cons p rest)
  obtain k e where p: "p = (k, e)" by (cases p)
  obtain evs r where rest: "(log_val rest :: ('t, 'a) event list \<times> (py_error + unit)) = (evs, r)"
    by (cases "log_val rest :: ('t, 'a) event list \<times> (py_error + unit)")
  show ?case
    using Cons.IH by (cases e) (auto simp: p rest)
qed

lemma validation_entries:
  assumes "distinct (map fst loss_outputs)"
    and "(k, e) \<in> set (validation_loss_outputs loss_outputs b)"
  shows "(k = ''binarization_loss'') = is_bare e"
proof -
  have d: "distinct (map fst (map (\<lambda>(k, (v, w)). (k, Weighted v w)) loss_outputs))"
    using assms(1) by (simp add: comp_def case_prod_unfold)
  from setitem_entries [OF d assms(2) [unfolded validation_loss_outputs_def]]
  show ?thesis by auto
qed

lemma filter_is_log_val:
  "filter is_log (map (\<lambda>(k, (v, w)). Log (''val/'' @ k) v) loss_outputs) =
    map (\<lambda>(k, (v, w)). Log (''val/'' @ k) v) loss_outputs"
  by (induction loss_outputs) auto

lemma validation_epoch_end_logs:
  assumes "log_val (out_loss_outputs r) = (evs, Inr ())"
  shows "filter is_log (fst (validation_epoch_end self (r # outs))) = filter is_log evs"
    and "snd (validation_epoch_end self (r # outs)) \<noteq> Inl IndexError"
  using assms by (simp_all add: validation_epoch_end_def getitem_def split: option.split)

lemma validation_loss_outputs_keeps:
  assumes "(k, (v, w)) \<in> set loss_outputs" and "k \<noteq> ''binarization_loss''"
  shows "(k, Weighted v w) \<in> set (validation_loss_outputs loss_outputs b)"
proof -
  have "(\<lambda>(k, (v, w)). (k, Weighted v w)) (k, (v, w))
      \<in> set (map (\<lambda>(k, (v, w)). (k, Weighted v w)) loss_outputs)"
    unfolding set_map using assms(1) by (rule imageI)
  then have "(k, Weighted v w) \<in> set (map (\<lambda>(k, (v, w)). (k, Weighted v w)) loss_outputs)"
    by simp
  then show ?thesis
    unfolding validation_loss_outputs_def using assms(2) by (rule setitem_keeps_other)
qed

lemma log_val_error: "snd (log_val d :: ('t, 'a) event list \<times> (py_error + unit)) = Inl e \<Longrightarrow> e = IndexError"
proof (induction d)
  case Nil
  then show ?case by simp
next
  case (Cons p rest)
  obtain k x where p: "p = (k, x)" by (cases p)
  obtain evs r where rest: "(log_val rest :: ('t, 'a) event list \<times> (py_error + unit)) = (evs, r)"
    by (cases "log_val rest :: ('t, 'a) event list \<times> (py_error + unit)")
  show ?case
    using Cons by (cases x) (auto simp: p rest split: if_splits)
qed

lemma validation_epoch_end_eq:
  assumes "log_val (out_loss_outputs r) = (evs, Inr ())"
  shows "validation_epoch_end self (r # outs) =
    (case out_attn r of
       None \<Rightarrow> (evs, Inl TypeError)
     | Some attn0 \<Rightarrow>
        (case out_attn_soft r of
           None \<Rightarrow>
             (evs @ [Add_image ''attention_weights_mas'' attn0 (global_step self)], Inl TypeError)
         | Some attn_soft0 \<Rightarrow>
             (evs @ [Add_image ''attention_weights_mas'' attn0 (global_step self),
                     Add_image ''attention_weights'' attn_soft0 (global_step self)],
              Inr (self\<lparr>log_train_images := True\<rparr>))))"
  using assms by (simp add: validation_epoch_end_def getitem_def)

lemma validation_epoch_end_index_error:
  fixes self :: "('t, 'a) radtts"
  shows "(snd (validation_epoch_end self (out0 # outs)) = Inl IndexError) =
    list_ex (\<lambda>(k, e). k \<noteq> ''binarization_loss'' \<and> is_bare e) (out_loss_outputs out0)"
proof -
  obtain evs res where lv:
    "(log_val (out_loss_outputs out0) :: ('t, 'a) event list \<times> (py_error + unit)) = (evs, res)"
    by (cases "log_val (out_loss_outputs out0) :: ('t, 'a) event list \<times> (py_error + unit)")
  have "(snd (log_val (out_loss_outputs out0) :: ('t, 'a) event list \<times> (py_error + unit))
          = Inl IndexError) =
      list_ex (\<lambda>(k, e). k \<noteq> ''binarization_loss'' \<and> is_bare e) (out_loss_outputs out0)"
    by (rule log_val_fails_iff)
  then have iff: "(res = Inl IndexError) =
      list_ex (\<lambda>(k, e). k \<noteq> ''binarization_loss'' \<and> is_bare e) (out_loss_outputs out0)"
    by (simp add: lv)
  show ?thesis
  proof (cases res)
    case (Inl e)
    have "snd (log_val (out_loss_outputs out0) :: ('t, 'a) event list \<times> (py_error + unit)) = Inl e"
      by (simp add: lv Inl)
    then have "e = IndexError"
      by (rule log_val_error)
    then show ?thesis
      using Inl iff lv by (simp add: validation_epoch_end_def getitem_def)
  next
    case (Inr u)
    then show ?thesis
      using iff lv by (simp add: validation_epoch_end_def getitem_def split: option.split)
  qed
qed

subsection \<open>The gates and the optimizer, in closed form\<close>

lemma training_kl_gate:
  "training_kl_condition self (training_binarize self) =
    (0 \<le> binarization_start_iter (train_config self)
      \<and> binarization_start_iter (train_config self) \<le> global_step self
      \<and> kl_loss_start_iter (train_config self) \<le> global_step self)"
  by (auto simp: training_kl_condition_def training_binarize_def)

lemma configure_optimizers_dispatch:
  assumes "finetune_layers (train_config self) = []"
  shows "configure_optimizers self =
    (if name (optim self) = ''Adam''
     then ([Info (''Initializing '' @ name (optim self) @ '' optimizer'')],
           Inr (Adam (lr (optim self)) (weight_decay (optim self))))
     else if name (optim self) = ''RAdam''
     then ([Info (''Initializing '' @ name (optim self) @ '' optimizer'')],
           Inr (RAdam (lr (optim self)) (weight_decay (optim self))))
     else ([Info (''Initializing '' @ name (optim self) @ '' optimizer''),
            Info (''Unrecognized optimizer '' @ name (optim self) @ ''!'')],
           Inl (SystemExit 1)))"
  using assms by (simp add: configure_optimizers_def)

subsection \<open>The concrete model\<close>

lemma toy_len13: "13 \<le> length batch13"
  by (simp add: batch13_def)

lemma toy_terms:
  "training_terms (at_step b k g) batch13 = [(''a'', (2, 1)), (''b'', (3, 0))]"
  "validation_terms (at_step b k g) batch13 = [(''a'', (2, 1)), (''b'', (3, 0))]"
  "training_kl (at_step b k g) batch13 = 5"
  "validation_kl (at_step b k g) batch13 = 5"
  by (simp_all add: training_terms_def validation_terms_def training_kl_def validation_kl_def
      at_step_def toy_model_def)

lemma toy_total: "weighted_total [(''a'', (2 :: real, 1)), (''b'', (3, 0))] = Some 2"
  by (simp add: weighted_total_def)

lemma toy_flags:
  "training_binarize (at_step b k g) = (0 \<le> b \<and> b \<le> g)"
  "validation_binarize (at_step b k g) = (0 \<le> b \<and> b \<le> g)"
  "training_kl_condition (at_step b k g) flag = (flag \<and> k \<le> g)"
  "validation_kl_condition (at_step b k g) flag = (flag \<and> 0 \<le> k \<and> k \<le> g)"
  by (simp_all add: training_binarize_def validation_binarize_def training_kl_condition_def
      validation_kl_condition_def at_step_def)

lemma toy_config:
  "binarization_start_iter (train_config (at_step b k g)) = b"
  "kl_loss_start_iter (train_config (at_step b k g)) = k"
  "global_step (at_step b k g) = g"
  by (simp_all add: at_step_def)

lemma toy_outputs:
  "model (at_step b k g) (forward_args_of (at_step b k g) flag batch13) =
    \<lparr>attn = [2], attn_soft = [6], mel = [4]\<rparr>"
  by (simp add: at_step_def toy_model_def forward_args_of_def batch13_def)

section \<open>The claims\<close>

subsection \<open>The phase gate\<close>

text \<open>
  C1, at the input where the code departs from it. With \<open>binarization_start_iter = 0\<close>,
  \<open>kl_loss_start_iter = -1\<close> and \<open>global_step = 0\<close>, training_step adds the attention
  loss 5 to the weighted total 2 and logs it, since its test (line 153) has no
  \<open>kl_loss_start_iter \<ge> 0\<close>; validation_step, which has that test (lines 207-211),
  stores a zero binarization loss on the same input.
\<close>

theorem training_step_negative_kl_start:
  "kl_loss_start_iter (train_config (at_step 0 (- 1) 0)) < 0
   \<and> training_step (at_step 0 (- 1) 0) batch13 0 =
       ([Forward (forward_args_of (at_step 0 (- 1) 0) True batch13),
         Log ''train/a'' 2, Log ''train/b'' 3, Log ''train/binarization_loss'' 5],
        Inr 7)
   \<and> (\<exists>r. snd (validation_step (at_step 0 (- 1) 0) batch13 0) = Inr r
        \<and> out_loss_outputs r =
            [(''a'', Weighted 2 1), (''b'', Weighted 3 0), (''binarization_loss'', Bare 0)])"
proof -
  have neg: "kl_loss_start_iter (train_config (at_step 0 (- 1) 0)) < 0"
    by (simp add: at_step_def)
  have train: "training_step (at_step 0 (- 1) 0) batch13 0 =
       ([Forward (forward_args_of (at_step 0 (- 1) 0) True batch13),
         Log ''train/a'' 2, Log ''train/b'' 3, Log ''train/binarization_loss'' 5],
        Inr 7)"
    by (simp add: training_step_eq [OF toy_len13] toy_terms toy_total toy_flags
        training_loss_outputs_def log_train_def)
  have val: "\<exists>r. snd (validation_step (at_step 0 (- 1) 0) batch13 0) = Inr r
        \<and> out_loss_outputs r =
            [(''a'', Weighted 2 1), (''b'', Weighted 3 0), (''binarization_loss'', Bare 0)]"
    by (simp add: validation_step_eq [OF toy_len13] toy_terms toy_total toy_flags
        validation_loss_outputs_def)
  show ?thesis
    using neg train val by blast
qed

text \<open>
  C3. In training_step and in validation_step the flag \<open>binarize\<close> is
  \<open>binarization_start_iter \<ge> 0 \<and> global_step \<ge> binarization_start_iter\<close>: False at every
  step below a non-negative threshold, True at every step at or above it, and always
  False for a negative threshold. In training_step it is the \<open>binarize_attention\<close>
  argument of the call of the network and the value of the local variable when the step
  returns. In validation_step it is the value of the local variable when the step
  returns, and the binarization loss that the step stores is the attention loss exactly
  when it holds and \<open>0 \<le> kl_loss_start_iter \<le> global_step\<close>.
\<close>

theorem binarize_phase_flag:
  fixes self :: "('t, 'a::{monoid_add,times,one,ord}) radtts"
  shows "training_binarize self =
           (0 \<le> binarization_start_iter (train_config self)
             \<and> binarization_start_iter (train_config self) \<le> global_step self)
       \<and> validation_binarize self =
           (0 \<le> binarization_start_iter (train_config self)
             \<and> binarization_start_iter (train_config self) \<le> global_step self)
       \<and> (0 \<le> binarization_start_iter (train_config self)
             \<and> global_step self < binarization_start_iter (train_config self)
            \<longrightarrow> \<not> training_binarize self \<and> \<not> validation_binarize self)
       \<and> (0 \<le> binarization_start_iter (train_config self)
             \<and> binarization_start_iter (train_config self) \<le> global_step self
            \<longrightarrow> training_binarize self \<and> validation_binarize self)
       \<and> (binarization_start_iter (train_config self) < 0
            \<longrightarrow> \<not> training_binarize self \<and> \<not> validation_binarize self)
       \<and> (13 \<le> length batch_data
            \<longrightarrow> hd (fst (training_step self batch_data batch_idx)) =
                  Forward (forward_args_of self
                    (0 \<le> binarization_start_iter (train_config self)
             \<and> binarization_start_iter (train_config self) \<le> global_step self)
                    batch_data))
       \<and> (13 \<le> length batch_data \<and> list_ex positive_weight (training_terms self batch_data)
            \<longrightarrow> (\<exists>loss_outputs loss.
                  training_step_locals self batch_data batch_idx =
                    (fst (training_step self batch_data batch_idx),
                     Inr ((0 \<le> binarization_start_iter (train_config self)
             \<and> binarization_start_iter (train_config self) \<le> global_step self),
                          loss_outputs, loss))
                  \<and> snd (training_step self batch_data batch_idx) = Inr loss))
       \<and> (13 \<le> length batch_data \<and> list_ex positive_weight (validation_terms self batch_data)
            \<longrightarrow> (\<exists>loss r.
                  validation_step_locals self batch_data batch_idx =
                    ([Forward (forward_args_of self True batch_data)],
                     Inr ((0 \<le> binarization_start_iter (train_config self)
             \<and> binarization_start_iter (train_config self) \<le> global_step self),
                          loss, r))
                  \<and> validation_step self batch_data batch_idx =
                      ([Forward (forward_args_of self True batch_data)], Inr r)
                  \<and> lookup (out_loss_outputs r) ''binarization_loss'' =
                      Inr (Bare (if (0 \<le> binarization_start_iter (train_config self)
             \<and> binarization_start_iter (train_config self) \<le> global_step self)
                                    \<and> 0 \<le> kl_loss_start_iter (train_config self)
                                    \<and> kl_loss_start_iter (train_config self) \<le> global_step self
                                 then validation_kl self batch_data else 0))))"
proof -
  have flag: "training_binarize self =
           (0 \<le> binarization_start_iter (train_config self)
             \<and> binarization_start_iter (train_config self) \<le> global_step self)"
    by (simp add: training_binarize_def)
  have vflag: "validation_binarize self =
           (0 \<le> binarization_start_iter (train_config self)
             \<and> binarization_start_iter (train_config self) \<le> global_step self)"
    by (simp add: validation_binarize_def)
  have below: "0 \<le> binarization_start_iter (train_config self)
             \<and> global_step self < binarization_start_iter (train_config self)
            \<longrightarrow> \<not> training_binarize self \<and> \<not> validation_binarize self"
    by (simp add: flag vflag)
  have above: "0 \<le> binarization_start_iter (train_config self)
             \<and> binarization_start_iter (train_config self) \<le> global_step self
            \<longrightarrow> training_binarize self \<and> validation_binarize self"
    by (simp add: flag vflag)
  have negative: "binarization_start_iter (train_config self) < 0
            \<longrightarrow> \<not> training_binarize self \<and> \<not> validation_binarize self"
    by (simp add: flag vflag)
  have call: "hd (fst (training_step self batch_data batch_idx)) =
      Forward (forward_args_of self (training_binarize self) batch_data)"
    if "13 \<le> length batch_data"
    by (simp add: training_step_eq [OF that] split: option.split)
  have tlocals: "\<exists>loss_outputs loss.
        training_step_locals self batch_data batch_idx =
          (fst (training_step self batch_data batch_idx),
           Inr (training_binarize self, loss_outputs, loss))
        \<and> snd (training_step self batch_data batch_idx) = Inr loss"
    if len: "13 \<le> length batch_data"
      and pos: "list_ex positive_weight (training_terms self batch_data)"
    by (simp add: training_step_def training_step_locals_eq [OF len] weighted_total_Some [OF pos])
  have vlocals: "\<exists>loss r.
        validation_step_locals self batch_data batch_idx =
          ([Forward (forward_args_of self True batch_data)],
           Inr (validation_binarize self, loss, r))
        \<and> validation_step self batch_data batch_idx =
            ([Forward (forward_args_of self True batch_data)], Inr r)
        \<and> lookup (out_loss_outputs r) ''binarization_loss'' =
            Inr (Bare (if validation_binarize self
                          \<and> 0 \<le> kl_loss_start_iter (train_config self)
                          \<and> kl_loss_start_iter (train_config self) \<le> global_step self
                       then validation_kl self batch_data else 0))"
    if len: "13 \<le> length batch_data"
      and pos: "list_ex positive_weight (validation_terms self batch_data)"
    by (simp add: validation_step_def validation_step_locals_eq [OF len]
        weighted_total_Some [OF pos] lookup_validation_binarization validation_kl_condition_def)
  have train_call: "13 \<le> length batch_data
            \<longrightarrow> hd (fst (training_step self batch_data batch_idx)) =
                  Forward (forward_args_of self
                    (0 \<le> binarization_start_iter (train_config self)
             \<and> binarization_start_iter (train_config self) \<le> global_step self)
                    batch_data)"
    using call unfolding flag by (rule impI)
  have train_flag: "13 \<le> length batch_data \<and> list_ex positive_weight (training_terms self batch_data)
            \<longrightarrow> (\<exists>loss_outputs loss.
                  training_step_locals self batch_data batch_idx =
                    (fst (training_step self batch_data batch_idx),
                     Inr ((0 \<le> binarization_start_iter (train_config self)
             \<and> binarization_start_iter (train_config self) \<le> global_step self),
                          loss_outputs, loss))
                  \<and> snd (training_step self batch_data batch_idx) = Inr loss)"
    using tlocals unfolding flag by (intro impI; elim conjE)
  have validation_flag: "13 \<le> length batch_data \<and> list_ex positive_weight (validation_terms self batch_data)
            \<longrightarrow> (\<exists>loss r.
                  validation_step_locals self batch_data batch_idx =
                    ([Forward (forward_args_of self True batch_data)],
                     Inr ((0 \<le> binarization_start_iter (train_config self)
             \<and> binarization_start_iter (train_config self) \<le> global_step self),
                          loss, r))
                  \<and> validation_step self batch_data batch_idx =
                      ([Forward (forward_args_of self True batch_data)], Inr r)
                  \<and> lookup (out_loss_outputs r) ''binarization_loss'' =
                      Inr (Bare (if (0 \<le> binarization_start_iter (train_config self)
             \<and> binarization_start_iter (train_config self) \<le> global_step self)
                                    \<and> 0 \<le> kl_loss_start_iter (train_config self)
                                    \<and> kl_loss_start_iter (train_config self) \<le> global_step self
                                 then validation_kl self batch_data else 0)))"
    using vlocals unfolding vflag by (intro impI; elim conjE)
  show ?thesis
    by (rule conjI [OF flag conjI [OF vflag conjI [OF below conjI [OF above
          conjI [OF negative conjI [OF train_call conjI [OF train_flag validation_flag]]]]]]])
qed

theorem binarize_phase_flag_witness:
  "\<not> training_binarize (at_step 2 4 1) \<and> \<not> validation_binarize (at_step 2 4 1)
   \<and> training_binarize (at_step 2 4 2) \<and> validation_binarize (at_step 2 4 2)
   \<and> training_binarize (at_step 2 4 9) \<and> validation_binarize (at_step 2 4 9)
   \<and> \<not> training_binarize (at_step (- 1) 4 9) \<and> \<not> validation_binarize (at_step (- 1) 4 9)
   \<and> hd (fst (training_step (at_step 2 4 9) batch13 0)) =
       Forward (forward_args_of (at_step 2 4 9) True batch13)
   \<and> (\<exists>loss_outputs loss.
        training_step_locals (at_step 2 4 9) batch13 0 =
          (fst (training_step (at_step 2 4 9) batch13 0), Inr (True, loss_outputs, loss)))
   \<and> (\<exists>loss r.
        validation_step_locals (at_step 2 4 9) batch13 0 =
          ([Forward (forward_args_of (at_step 2 4 9) True batch13)], Inr (True, loss, r))
        \<and> validation_step (at_step 2 4 9) batch13 0 =
            ([Forward (forward_args_of (at_step 2 4 9) True batch13)], Inr r)
        \<and> lookup (out_loss_outputs r) ''binarization_loss'' = Inr (Bare 5))
   \<and> (\<exists>loss r.
        validation_step_locals (at_step 2 4 1) batch13 0 =
          ([Forward (forward_args_of (at_step 2 4 1) True batch13)], Inr (False, loss, r))
        \<and> lookup (out_loss_outputs r) ''binarization_loss'' = Inr (Bare 0))"
  using binarize_phase_flag [of "at_step 2 4 1" batch13 0]
    binarize_phase_flag [of "at_step 2 4 2"]
    binarize_phase_flag [of "at_step 2 4 9" batch13 0]
    binarize_phase_flag [of "at_step (- 1) 4 9"]
  by (simp add: toy_len13 toy_terms toy_config positive_weight_def) blast

text \<open>
  C4. For every batch of at least 13 tensors and every step, validation_step calls the
  network once, with \<open>binarize_attention = True\<close>, whatever the computed flag is; the
  binarization loss it stores is the attention loss exactly when the computed flag
  holds and \<open>0 \<le> kl_loss_start_iter \<le> global_step\<close>, and zero otherwise.
\<close>

theorem validation_forward_binarized:
  fixes self :: "('t, 'a::{monoid_add,times,ord}) radtts"
  assumes "13 \<le> length batch_data"
  shows "fst (validation_step self batch_data batch_idx) =
           [Forward (forward_args_of self True batch_data)]
       \<and> binarize_attention (forward_args_of self True batch_data) = True
       \<and> (list_ex positive_weight (validation_terms self batch_data) \<longrightarrow>
            (\<exists>r. snd (validation_step self batch_data batch_idx) = Inr r
              \<and> lookup (out_loss_outputs r) ''binarization_loss'' =
                  Inr (Bare (if validation_binarize self
                                \<and> 0 \<le> kl_loss_start_iter (train_config self)
                                \<and> kl_loss_start_iter (train_config self) \<le> global_step self
                             then validation_kl self batch_data else 0))))"
proof -
  note eq = validation_step_eq [OF assms, of self batch_idx]
  have call: "fst (validation_step self batch_data batch_idx) =
      [Forward (forward_args_of self True batch_data)]"
    by (simp add: eq split: option.split)
  have flag: "binarize_attention (forward_args_of self True batch_data) = True"
    by (simp add: forward_args_of_def)
  have gate: "\<exists>r. snd (validation_step self batch_data batch_idx) = Inr r
              \<and> lookup (out_loss_outputs r) ''binarization_loss'' =
                  Inr (Bare (if validation_binarize self
                                \<and> 0 \<le> kl_loss_start_iter (train_config self)
                                \<and> kl_loss_start_iter (train_config self) \<le> global_step self
                             then validation_kl self batch_data else 0))"
    if pos: "list_ex positive_weight (validation_terms self batch_data)"
    by (simp add: eq weighted_total_Some [OF pos] lookup_validation_binarization
        validation_kl_condition_def)
  show ?thesis
    using call flag gate by blast
qed

theorem validation_forward_binarized_witness:
  "\<not> validation_binarize (at_step 2 0 0)
   \<and> fst (validation_step (at_step 2 0 0) batch13 0) =
       [Forward (forward_args_of (at_step 2 0 0) True batch13)]
   \<and> (\<exists>r. snd (validation_step (at_step 2 0 0) batch13 0) = Inr r
         \<and> lookup (out_loss_outputs r) ''binarization_loss'' = Inr (Bare 0))
   \<and> (\<exists>r. snd (validation_step (at_step 2 0 2) batch13 0) = Inr r
         \<and> lookup (out_loss_outputs r) ''binarization_loss'' = Inr (Bare 5))"
  using validation_forward_binarized [where self = "at_step 2 0 0" and batch_data = batch13
      and batch_idx = 0]
    validation_forward_binarized [where self = "at_step 2 0 2" and batch_data = batch13
      and batch_idx = 0]
  by (simp add: positive_weight_def validation_terms_def validation_kl_def validation_binarize_def
      at_step_def toy_model_def batch13_def)

subsection \<open>The loss aggregator\<close>

text \<open>
  C2. The loss after the loop of both steps is the sum of value times weight over
  exactly the terms with a positive weight (undefined when there is none). In
  training_step it is the loss returned, plus the attention loss when that is active;
  in validation_step it is the value of the local variable \<open>loss\<close> when the step
  returns, plus the attention loss when that is active. A term with weight 0 adds
  nothing and is still logged by training_step, and still returned by validation_step
  and logged by validation_epoch_end from the first batch. For the mapping
  a: (2.0, 1.0), b: (3.0, 0.0) the total is 2.0.
\<close>

theorem aggregate_weighted_sum:
  fixes self :: "('t, 'a::{monoid_add,times,one,ord}) radtts"
    and self' :: "('t, 'a) radtts"
    and loss_outputs :: "(string \<times> 'a \<times> 'a) list"
  shows "weighted_total loss_outputs =
           (if list_ex positive_weight loss_outputs then Some (weighted_sum loss_outputs) else None)
       \<and> weighted_sum loss_outputs =
           sum_list (map (\<lambda>(k, (v, w)). v * w) (filter (\<lambda>(k, (v, w)). 0 < w) loss_outputs))
       \<and> list_ex positive_weight loss_outputs = (\<exists>(k, (v, w)) \<in> set loss_outputs. 0 < w)
       \<and> (13 \<le> length batch_data \<and> list_ex positive_weight (training_terms self batch_data) \<longrightarrow>
            snd (training_step self batch_data batch_idx) =
              Inr (if training_kl_condition self (training_binarize self)
                   then weighted_sum (training_terms self batch_data) + training_kl self batch_data
                   else weighted_sum (training_terms self batch_data))
            \<and> (\<forall>(k, (v, w)) \<in> set (training_terms self batch_data).
                  k \<noteq> ''binarization_loss'' \<longrightarrow>
                  Log (''train/'' @ k) v \<in> set (fst (training_step self batch_data batch_idx))))
       \<and> (13 \<le> length batch_data \<and> list_ex positive_weight (validation_terms self batch_data) \<longrightarrow>
            (\<exists>binarize r.
              validation_step_locals self batch_data batch_idx =
                (fst (validation_step self batch_data batch_idx),
                 Inr (binarize,
                      if validation_kl_condition self (validation_binarize self)
                      then weighted_sum (validation_terms self batch_data)
                             + validation_kl self batch_data
                      else weighted_sum (validation_terms self batch_data),
                      r))
              \<and> snd (validation_step self batch_data batch_idx) = Inr r
              \<and> (\<forall>(k, (v, w)) \<in> set (validation_terms self batch_data).
                    k \<noteq> ''binarization_loss'' \<longrightarrow>
                    (k, Weighted v w) \<in> set (out_loss_outputs r)
                    \<and> Log (''val/'' @ k) v
                        \<in> set (fst (validation_epoch_end self' (r # outs))))))"
proof -
  have pw: "positive_weight = (\<lambda>(k, (v, w)). 0 < w)" for dummy :: 'a
    by (auto simp: positive_weight_def fun_eq_iff)
  have total: "weighted_total loss_outputs =
           (if list_ex positive_weight loss_outputs then Some (weighted_sum loss_outputs) else None)"
    by (simp add: weighted_total_spec spec_total_def)
  have sum: "weighted_sum loss_outputs =
           sum_list (map (\<lambda>(k, (v, w)). v * w) (filter (\<lambda>(k, (v, w)). 0 < w) loss_outputs))"
    by (simp add: weighted_sum_def pw)
  have ex: "list_ex positive_weight loss_outputs = (\<exists>(k, (v, w)) \<in> set loss_outputs. 0 < w)"
    by (simp add: list_ex_iff pw)
  have step: "snd (training_step self batch_data batch_idx) =
              Inr (if training_kl_condition self (training_binarize self)
                   then weighted_sum (training_terms self batch_data) + training_kl self batch_data
                   else weighted_sum (training_terms self batch_data))
            \<and> (\<forall>(k, (v, w)) \<in> set (training_terms self batch_data).
                  k \<noteq> ''binarization_loss'' \<longrightarrow>
                  Log (''train/'' @ k) v \<in> set (fst (training_step self batch_data batch_idx)))"
    if len: "13 \<le> length batch_data"
      and pos: "list_ex positive_weight (training_terms self batch_data)"
  proof -
    note eq = training_step_eq [OF len, of self batch_idx, unfolded weighted_total_Some [OF pos]]
    show ?thesis
      by (auto simp: eq intro: log_train_member [simplified])
  qed
  have vstep: "(\<exists>binarize r.
              validation_step_locals self batch_data batch_idx =
                (fst (validation_step self batch_data batch_idx),
                 Inr (binarize,
                      if validation_kl_condition self (validation_binarize self)
                      then weighted_sum (validation_terms self batch_data)
                             + validation_kl self batch_data
                      else weighted_sum (validation_terms self batch_data),
                      r))
              \<and> snd (validation_step self batch_data batch_idx) = Inr r
              \<and> (\<forall>(k, (v, w)) \<in> set (validation_terms self batch_data).
                    k \<noteq> ''binarization_loss'' \<longrightarrow>
                    (k, Weighted v w) \<in> set (out_loss_outputs r)
                    \<and> Log (''val/'' @ k) v
                        \<in> set (fst (validation_epoch_end self' (r # outs)))))"
    if len: "13 \<le> length batch_data"
      and pos: "list_ex positive_weight (validation_terms self batch_data)"
  proof -
    define b where "b = (if validation_kl_condition self (validation_binarize self)
                   then validation_kl self batch_data else 0)"
    define r where "r = \<lparr>out_loss_outputs =
                validation_loss_outputs (validation_terms self batch_data) b,
              out_attn = (if batch_idx = 0
                          then Some (attn (model self (forward_args_of self True batch_data)))
                          else None),
              out_attn_soft = (if batch_idx = 0
                          then Some (attn_soft (model self (forward_args_of self True batch_data)))
                          else None),
              out_audiopaths = (if batch_idx = 0 then Some ''audio_1'' else None)\<rparr>"
    have res: "snd (validation_step self batch_data batch_idx) = Inr r"
      by (simp add: validation_step_eq [OF len] weighted_total_Some [OF pos] r_def b_def)
    have locals: "validation_step_locals self batch_data batch_idx =
                (fst (validation_step self batch_data batch_idx),
                 Inr (validation_binarize self,
                      if validation_kl_condition self (validation_binarize self)
                      then weighted_sum (validation_terms self batch_data)
                             + validation_kl self batch_data
                      else weighted_sum (validation_terms self batch_data),
                      r))"
      by (simp add: validation_step_eq [OF len] validation_step_locals_eq [OF len]
          weighted_total_Some [OF pos] r_def b_def)
    have lv: "(log_val (out_loss_outputs r) :: ('t, 'a) event list \<times> (py_error + unit)) =
              (map (\<lambda>(k, (v, w)). Log (''val/'' @ k) v)
                 (filter (\<lambda>(k, vw). k \<noteq> ''binarization_loss'') (validation_terms self batch_data)),
               Inr ())"
      by (simp add: r_def log_val_validation)
    have logs: "filter is_log (fst (validation_epoch_end self' (r # outs))) =
                  map (\<lambda>(k, (v, w)). Log (''val/'' @ k) v)
                    (filter (\<lambda>(k, vw). k \<noteq> ''binarization_loss'')
                       (validation_terms self batch_data))"
      unfolding validation_epoch_end_logs(1) [OF lv] by (rule filter_is_log_val)
    have kept: "(k, Weighted v w) \<in> set (out_loss_outputs r)
        \<and> Log (''val/'' @ k) v \<in> set (fst (validation_epoch_end self' (r # outs)))"
      if mem: "(k, (v, w)) \<in> set (validation_terms self batch_data)"
        and key: "k \<noteq> ''binarization_loss''" for k v w
    proof -
      have a: "(k, Weighted v w) \<in> set (out_loss_outputs r)"
        using validation_loss_outputs_keeps [OF mem key] by (simp add: r_def)
      have "(k, (v, w)) \<in> set (filter (\<lambda>(k, vw). k \<noteq> ''binarization_loss'')
                       (validation_terms self batch_data))"
        using mem key by simp
      then have "(\<lambda>(k, (v, w)). Log (''val/'' @ k) v) (k, (v, w))
          \<in> set (filter is_log (fst (validation_epoch_end self' (r # outs))))"
        unfolding logs set_map by (rule imageI)
      then have "Log (''val/'' @ k) v \<in> set (fst (validation_epoch_end self' (r # outs)))"
        by simp
      with a show ?thesis by simp
    qed
    show ?thesis
      using res locals kept by blast
  qed
  have train: "13 \<le> length batch_data \<and> list_ex positive_weight (training_terms self batch_data) \<longrightarrow>
            snd (training_step self batch_data batch_idx) =
              Inr (if training_kl_condition self (training_binarize self)
                   then weighted_sum (training_terms self batch_data) + training_kl self batch_data
                   else weighted_sum (training_terms self batch_data))
            \<and> (\<forall>(k, (v, w)) \<in> set (training_terms self batch_data).
                  k \<noteq> ''binarization_loss'' \<longrightarrow>
                  Log (''train/'' @ k) v \<in> set (fst (training_step self batch_data batch_idx)))"
    using step by blast
  have val: "13 \<le> length batch_data \<and> list_ex positive_weight (validation_terms self batch_data) \<longrightarrow>
            (\<exists>binarize r.
              validation_step_locals self batch_data batch_idx =
                (fst (validation_step self batch_data batch_idx),
                 Inr (binarize,
                      if validation_kl_condition self (validation_binarize self)
                      then weighted_sum (validation_terms self batch_data)
                             + validation_kl self batch_data
                      else weighted_sum (validation_terms self batch_data),
                      r))
              \<and> snd (validation_step self batch_data batch_idx) = Inr r
              \<and> (\<forall>(k, (v, w)) \<in> set (validation_terms self batch_data).
                    k \<noteq> ''binarization_loss'' \<longrightarrow>
                    (k, Weighted v w) \<in> set (out_loss_outputs r)
                    \<and> Log (''val/'' @ k) v
                        \<in> set (fst (validation_epoch_end self' (r # outs)))))"
    using vstep by (intro impI; elim conjE)
  show ?thesis
    by (rule conjI [OF total conjI [OF sum conjI [OF ex conjI [OF train val]]]])
qed

theorem aggregate_weighted_sum_witness:
  "weighted_total [(''a'', (2 :: real, 1)), (''b'', (3, 0))] = Some 2
   \<and> snd (training_step (at_step 2 4 0) batch13 0) = Inr 2
   \<and> Log ''train/a'' 2 \<in> set (fst (training_step (at_step 2 4 0) batch13 0))
   \<and> Log ''train/b'' 3 \<in> set (fst (training_step (at_step 2 4 0) batch13 0))
   \<and> (\<exists>binarize r.
        validation_step_locals (at_step 2 4 0) batch13 0 =
          (fst (validation_step (at_step 2 4 0) batch13 0), Inr (binarize, 2, r))
        \<and> snd (validation_step (at_step 2 4 0) batch13 0) = Inr r
        \<and> (''b'', Weighted 3 0) \<in> set (out_loss_outputs r)
        \<and> Log ''val/b'' 3 \<in> set (fst (validation_epoch_end (at_step 2 4 0) (r # []))))"
  using aggregate_weighted_sum [where loss_outputs = "[(''a'', (2 :: real, 1)), (''b'', (3, 0))]"
      and self = "at_step 2 4 0" and batch_data = batch13 and batch_idx = 0
      and self' = "at_step 2 4 0" and outs = "[]"]
  by (simp add: toy_len13 toy_terms toy_flags positive_weight_def weighted_sum_def) blast

text \<open>
  C9, as stated, fails: with no term of positive weight (here the mapping a: (2.0, 0.0))
  nothing guards the steps; both raise TypeError after the call of the network.
\<close>

theorem zero_weight_step_counterexample:
  "\<not> list_ex positive_weight (training_terms zero_weight_model batch13)
   \<and> weighted_total (training_terms zero_weight_model batch13) = None
   \<and> training_step zero_weight_model batch13 0 =
       ([Forward (forward_args_of zero_weight_model False batch13)], Inl TypeError)
   \<and> validation_step zero_weight_model batch13 0 =
       ([Forward (forward_args_of zero_weight_model True batch13)], Inl TypeError)"
proof -
  have len: "13 \<le> length batch13" by (simp add: batch13_def)
  have terms: "training_terms zero_weight_model batch13 = [(''a'', (2, 0))]"
    "validation_terms zero_weight_model batch13 = [(''a'', (2, 0))]"
    by (simp_all add: training_terms_def validation_terms_def zero_weight_model_def)
  have none: "weighted_total [(''a'', (2 :: real, 0))] = None"
    by (simp add: weighted_total_def)
  have flag: "training_binarize zero_weight_model = False"
    by (simp add: training_binarize_def zero_weight_model_def toy_model_def)
  show ?thesis
    by (simp add: training_step_eq [OF len] validation_step_eq [OF len] terms none flag
        positive_weight_def)
qed

text \<open>
  C9, amended. For a batch of at least 13 tensors, the total is undefined exactly when
  no term has a positive weight; then training_step and validation_step raise TypeError
  after the call of the network and log nothing. When some term has a positive weight
  they return.
\<close>

theorem zero_weight_step_raises:
  fixes self :: "('t, 'a::{monoid_add,times,one,ord}) radtts"
  assumes "13 \<le> length batch_data"
  shows "(weighted_total (training_terms self batch_data) = None) =
           (\<not> list_ex positive_weight (training_terms self batch_data))
       \<and> (\<not> list_ex positive_weight (training_terms self batch_data) \<longrightarrow>
            training_step self batch_data batch_idx =
              ([Forward (forward_args_of self (training_binarize self) batch_data)], Inl TypeError))
       \<and> (list_ex positive_weight (training_terms self batch_data) \<longrightarrow>
            (\<exists>loss. snd (training_step self batch_data batch_idx) = Inr loss))
       \<and> (\<not> list_ex positive_weight (validation_terms self batch_data) \<longrightarrow>
            validation_step self batch_data batch_idx =
              ([Forward (forward_args_of self True batch_data)], Inl TypeError))
       \<and> (list_ex positive_weight (validation_terms self batch_data) \<longrightarrow>
            (\<exists>r. snd (validation_step self batch_data batch_idx) = Inr r))"
proof -
  note teq = training_step_eq [OF assms, of self batch_idx]
  note veq = validation_step_eq [OF assms, of self batch_idx]
  have a: "(weighted_total (training_terms self batch_data) = None) =
           (\<not> list_ex positive_weight (training_terms self batch_data))"
    by (simp add: weighted_total_spec spec_total_def)
  have b: "training_step self batch_data batch_idx =
      ([Forward (forward_args_of self (training_binarize self) batch_data)], Inl TypeError)"
    if "\<not> list_ex positive_weight (training_terms self batch_data)"
    by (simp add: teq weighted_total_None [OF that])
  have c: "\<exists>loss. snd (training_step self batch_data batch_idx) = Inr loss"
    if "list_ex positive_weight (training_terms self batch_data)"
    by (simp add: teq weighted_total_Some [OF that])
  have d: "validation_step self batch_data batch_idx =
      ([Forward (forward_args_of self True batch_data)], Inl TypeError)"
    if "\<not> list_ex positive_weight (validation_terms self batch_data)"
    by (simp add: veq weighted_total_None [OF that])
  have e: "\<exists>r. snd (validation_step self batch_data batch_idx) = Inr r"
    if "list_ex positive_weight (validation_terms self batch_data)"
    by (simp add: veq weighted_total_Some [OF that])
  show ?thesis
    using a b c d e by blast
qed

theorem zero_weight_step_raises_witness:
  "snd (training_step zero_weight_model batch13 0) = Inl TypeError
   \<and> snd (validation_step zero_weight_model batch13 0) = Inl TypeError
   \<and> (\<exists>loss. snd (training_step toy_model batch13 0) = Inr loss)
   \<and> (\<exists>r. snd (validation_step toy_model batch13 0) = Inr r)"
  using zero_weight_step_raises [where self = zero_weight_model and batch_data = batch13
      and batch_idx = 0]
    zero_weight_step_raises [where self = toy_model and batch_data = batch13 and batch_idx = 0]
  by (simp add: positive_weight_def training_terms_def validation_terms_def zero_weight_model_def
      toy_model_def batch13_def)

subsection \<open>The logged terms\<close>

text \<open>
  C6, as stated, fails: validation_step returns a binarization term (here 5), and
  validation_epoch_end emits the terms a and b only.
\<close>

theorem validation_binarization_not_logged:
  "\<exists>r. snd (validation_step (at_step 0 0 0) batch13 0) = Inr r
     \<and> out_loss_outputs r =
         [(''a'', Weighted 2 1), (''b'', Weighted 3 0), (''binarization_loss'', Bare 5)]
     \<and> validation_epoch_end (at_step 0 0 0) [r] =
         ([Log ''val/a'' 2, Log ''val/b'' 3,
           Add_image ''attention_weights_mas'' [2] 0,
           Add_image ''attention_weights'' [6] 0],
          Inr ((at_step 0 0 0)\<lparr>log_train_images := True\<rparr>))"
  by (simp add: validation_step_eq [OF toy_len13] toy_terms toy_total toy_flags toy_outputs
      toy_config validation_loss_outputs_def validation_epoch_end_def getitem_def)

text \<open>
  C6, amended. When training_step returns, its \<^verbatim>\<open>self.log\<close> calls are one per term of
  the mapping with the binarization term set, each under \<open>train/\<close> and the term's name,
  the binarization term among them. After validation, validation_epoch_end logs every
  term of the first batch's mapping but the binarization term, each under \<open>val/\<close> and
  its name; the binarization term is never logged there.
\<close>

theorem loss_terms_logged:
  fixes self :: "('t, 'a::{monoid_add,times,one,ord}) radtts"
  assumes "13 \<le> length batch_data"
  shows "(list_ex positive_weight (training_terms self batch_data) \<longrightarrow>
            filter is_log (fst (training_step self batch_data batch_idx)) =
              map (\<lambda>(k, (v, w)). Log (''train/'' @ k) v)
                (setitem ''binarization_loss''
                   (if training_kl_condition self (training_binarize self)
                    then training_kl self batch_data else 0, 1)
                   (training_terms self batch_data))
            \<and> Log ''train/binarization_loss''
                 (if training_kl_condition self (training_binarize self)
                  then training_kl self batch_data else 0)
               \<in> set (fst (training_step self batch_data batch_idx)))
       \<and> (list_ex positive_weight (validation_terms self batch_data) \<longrightarrow>
            (\<exists>r. snd (validation_step self batch_data batch_idx) = Inr r
              \<and> filter is_log (fst (validation_epoch_end self' (r # outs))) =
                  map (\<lambda>(k, (v, w)). Log (''val/'' @ k) v)
                    (filter (\<lambda>(k, vw). k \<noteq> ''binarization_loss'')
                       (validation_terms self batch_data))
              \<and> (\<forall>x. Log ''val/binarization_loss'' x
                        \<notin> set (filter is_log (fst (validation_epoch_end self' (r # outs)))))))"
proof -
  have train: "filter is_log (fst (training_step self batch_data batch_idx)) =
              map (\<lambda>(k, (v, w)). Log (''train/'' @ k) v)
                (setitem ''binarization_loss''
                   (if training_kl_condition self (training_binarize self)
                    then training_kl self batch_data else 0, 1)
                   (training_terms self batch_data))
            \<and> Log ''train/binarization_loss''
                 (if training_kl_condition self (training_binarize self)
                  then training_kl self batch_data else 0)
               \<in> set (fst (training_step self batch_data batch_idx))"
    if pos: "list_ex positive_weight (training_terms self batch_data)"
  proof -
    note eq = training_step_eq [OF assms, of self batch_idx, unfolded weighted_total_Some [OF pos]]
    have mem: "Log ''train/binarization_loss'' b
        \<in> set (log_train (training_loss_outputs (training_terms self batch_data) b)
                 :: ('t, 'a) event list)" for b
      using setitem_member [of "''binarization_loss''" "(b, 1)" "training_terms self batch_data"]
      by (force simp: log_train_def training_loss_outputs_def)
    show ?thesis
    proof (cases "training_kl_condition self (training_binarize self)")
      case True
      then show ?thesis
        using mem [of "training_kl self batch_data"]
        by (simp add: eq filter_is_log_train) (simp add: log_train_def training_loss_outputs_def)
    next
      case False
      then show ?thesis
        using mem [of 0]
        by (simp add: eq filter_is_log_train) (simp add: log_train_def training_loss_outputs_def)
    qed
  qed
  have val: "\<exists>r. snd (validation_step self batch_data batch_idx) = Inr r
              \<and> filter is_log (fst (validation_epoch_end self' (r # outs))) =
                  map (\<lambda>(k, (v, w)). Log (''val/'' @ k) v)
                    (filter (\<lambda>(k, vw). k \<noteq> ''binarization_loss'')
                       (validation_terms self batch_data))
              \<and> (\<forall>x. Log ''val/binarization_loss'' x
                        \<notin> set (filter is_log (fst (validation_epoch_end self' (r # outs)))))"
    if pos: "list_ex positive_weight (validation_terms self batch_data)"
  proof -
    define b where "b = (if validation_kl_condition self (validation_binarize self)
                   then validation_kl self batch_data else 0)"
    define r where "r = \<lparr>out_loss_outputs =
                validation_loss_outputs (validation_terms self batch_data) b,
              out_attn = (if batch_idx = 0
                          then Some (attn (model self (forward_args_of self True batch_data)))
                          else None),
              out_attn_soft = (if batch_idx = 0
                          then Some (attn_soft (model self (forward_args_of self True batch_data)))
                          else None),
              out_audiopaths = (if batch_idx = 0 then Some ''audio_1'' else None)\<rparr>"
    have res: "snd (validation_step self batch_data batch_idx) = Inr r"
      by (simp add: validation_step_eq [OF assms] weighted_total_Some [OF pos] r_def b_def)
    have lv: "(log_val (out_loss_outputs r) :: ('t, 'a) event list \<times> (py_error + unit)) =
              (map (\<lambda>(k, (v, w)). Log (''val/'' @ k) v)
                 (filter (\<lambda>(k, vw). k \<noteq> ''binarization_loss'') (validation_terms self batch_data)),
               Inr ())"
      by (simp add: r_def log_val_validation)
    have logs: "filter is_log (fst (validation_epoch_end self' (r # outs))) =
                  map (\<lambda>(k, (v, w)). Log (''val/'' @ k) v)
                    (filter (\<lambda>(k, vw). k \<noteq> ''binarization_loss'')
                       (validation_terms self batch_data))"
      unfolding validation_epoch_end_logs(1) [OF lv] by (rule filter_is_log_val)
    have none: "Log ''val/binarization_loss'' x
        \<notin> set (filter is_log (fst (validation_epoch_end self' (r # outs))))" for x
      unfolding logs by auto
    show ?thesis
      using res logs none by blast
  qed
  show ?thesis
    using train val by blast
qed

theorem loss_terms_logged_witness:
  "filter is_log (fst (training_step (at_step 0 0 0) batch13 0)) =
     [Log ''train/a'' 2, Log ''train/b'' 3, Log ''train/binarization_loss'' 5]
   \<and> (\<exists>r. snd (validation_step (at_step 0 0 0) batch13 0) = Inr r
        \<and> filter is_log (fst (validation_epoch_end (at_step 0 0 0) [r])) =
            [Log ''val/a'' 2, Log ''val/b'' 3])"
  using loss_terms_logged [where self = "at_step 0 0 0" and batch_data = batch13
      and batch_idx = 0 and self' = "at_step 0 0 0" and outs = "[]"]
  by (auto simp: toy_len13 toy_terms toy_flags positive_weight_def)

text \<open>
  C10. In the \<^verbatim>\<open>loss_outputs\<close> that validation_step returns every key maps to a pair
  (value, weight) except \<^verbatim>\<open>binarization_loss\<close>, which maps to a bare tensor, where
  the \<^verbatim>\<open>loss_outputs\<close> of training_step holds the pair (binarization_loss, 1.0).
  On what validation_step returns, validation_epoch_end logs the first component of
  every entry but that of \<^verbatim>\<open>binarization_loss\<close>, then adds the two images (or raises
  TypeError on the missing attention maps of a later batch); and on any first dict it
  raises IndexError exactly when a bare tensor stands under another key.
\<close>

theorem validation_loss_outputs_heterogeneous:
  fixes self :: "('t, 'a::{monoid_add,times,one,ord}) radtts"
    and self' :: "('t, 'a) radtts"
  assumes "13 \<le> length batch_data"
    and "distinct (map fst (validation_terms self batch_data))"
    and "list_ex positive_weight (validation_terms self batch_data)"
  shows "(\<exists>r. snd (validation_step self batch_data batch_idx) = Inr r
          \<and> (\<forall>(k, e) \<in> set (out_loss_outputs r). (k = ''binarization_loss'') = is_bare e)
          \<and> (\<exists>b. lookup (out_loss_outputs r) ''binarization_loss'' = Inr (Bare b))
          \<and> validation_epoch_end self' (r # outs) =
              (if batch_idx = 0
               then (map (\<lambda>(k, (v, w)). Log (''val/'' @ k) v)
                 (filter (\<lambda>(k, vw). k \<noteq> ''binarization_loss'') (validation_terms self batch_data))
                     @ [Add_image ''attention_weights_mas''
                          (attn (model self (forward_args_of self True batch_data)))
                          (global_step self'),
                        Add_image ''attention_weights''
                          (attn_soft (model self (forward_args_of self True batch_data)))
                          (global_step self')],
                     Inr (self'\<lparr>log_train_images := True\<rparr>))
               else (map (\<lambda>(k, (v, w)). Log (''val/'' @ k) v)
                 (filter (\<lambda>(k, vw). k \<noteq> ''binarization_loss'') (validation_terms self batch_data)),
                     Inl TypeError)))
       \<and> (list_ex positive_weight (training_terms self batch_data) \<longrightarrow>
            (\<exists>binarize loss_outputs loss.
               training_step_locals self batch_data batch_idx =
                 (fst (training_step self batch_data batch_idx),
                  Inr (binarize, loss_outputs, loss))
               \<and> snd (training_step self batch_data batch_idx) = Inr loss
               \<and> lookup loss_outputs ''binarization_loss'' =
                   Inr (if training_kl_condition self (training_binarize self)
                        then training_kl self batch_data else 0, 1)))
       \<and> (snd (validation_epoch_end self' (out0 # outs)) = Inl IndexError) =
           list_ex (\<lambda>(k, e). k \<noteq> ''binarization_loss'' \<and> is_bare e) (out_loss_outputs out0)"
proof -
  define b where "b = (if validation_kl_condition self (validation_binarize self)
                   then validation_kl self batch_data else 0)"
  define r where "r = \<lparr>out_loss_outputs =
                validation_loss_outputs (validation_terms self batch_data) b,
              out_attn = (if batch_idx = 0
                          then Some (attn (model self (forward_args_of self True batch_data)))
                          else None),
              out_attn_soft = (if batch_idx = 0
                          then Some (attn_soft (model self (forward_args_of self True batch_data)))
                          else None),
              out_audiopaths = (if batch_idx = 0 then Some ''audio_1'' else None)\<rparr>"
  have res: "snd (validation_step self batch_data batch_idx) = Inr r"
    by (simp add: validation_step_eq [OF assms(1)] weighted_total_Some [OF assms(3)] r_def b_def)
  have lo: "out_loss_outputs r = validation_loss_outputs (validation_terms self batch_data) b"
    by (simp add: r_def)
  have entries: "\<forall>(k, e) \<in> set (out_loss_outputs r). (k = ''binarization_loss'') = is_bare e"
    unfolding lo using validation_entries [OF assms(2)] by blast
  have bare: "\<exists>b. lookup (out_loss_outputs r) ''binarization_loss'' = Inr (Bare b)"
    unfolding lo by (simp add: lookup_validation_binarization)
  have logs: "(log_val (out_loss_outputs r) :: ('t, 'a) event list \<times> (py_error + unit)) =
              (map (\<lambda>(k, (v, w)). Log (''val/'' @ k) v)
                 (filter (\<lambda>(k, vw). k \<noteq> ''binarization_loss'') (validation_terms self batch_data)),
               Inr ())"
    unfolding lo by (rule log_val_validation)
  have epoch: "validation_epoch_end self' (r # outs) =
              (if batch_idx = 0
               then (map (\<lambda>(k, (v, w)). Log (''val/'' @ k) v)
                 (filter (\<lambda>(k, vw). k \<noteq> ''binarization_loss'') (validation_terms self batch_data))
                     @ [Add_image ''attention_weights_mas''
                          (attn (model self (forward_args_of self True batch_data)))
                          (global_step self'),
                        Add_image ''attention_weights''
                          (attn_soft (model self (forward_args_of self True batch_data)))
                          (global_step self')],
                     Inr (self'\<lparr>log_train_images := True\<rparr>))
               else (map (\<lambda>(k, (v, w)). Log (''val/'' @ k) v)
                 (filter (\<lambda>(k, vw). k \<noteq> ''binarization_loss'') (validation_terms self batch_data)),
                     Inl TypeError))"
    unfolding validation_epoch_end_eq [OF logs] by (simp add: r_def)
  have val: "\<exists>r. snd (validation_step self batch_data batch_idx) = Inr r
          \<and> (\<forall>(k, e) \<in> set (out_loss_outputs r). (k = ''binarization_loss'') = is_bare e)
          \<and> (\<exists>b. lookup (out_loss_outputs r) ''binarization_loss'' = Inr (Bare b))
          \<and> validation_epoch_end self' (r # outs) =
              (if batch_idx = 0
               then (map (\<lambda>(k, (v, w)). Log (''val/'' @ k) v)
                 (filter (\<lambda>(k, vw). k \<noteq> ''binarization_loss'') (validation_terms self batch_data))
                     @ [Add_image ''attention_weights_mas''
                          (attn (model self (forward_args_of self True batch_data)))
                          (global_step self'),
                        Add_image ''attention_weights''
                          (attn_soft (model self (forward_args_of self True batch_data)))
                          (global_step self')],
                     Inr (self'\<lparr>log_train_images := True\<rparr>))
               else (map (\<lambda>(k, (v, w)). Log (''val/'' @ k) v)
                 (filter (\<lambda>(k, vw). k \<noteq> ''binarization_loss'') (validation_terms self batch_data)),
                     Inl TypeError))"
    using res entries bare epoch by blast
  have tlocals: "\<exists>binarize loss_outputs loss.
               training_step_locals self batch_data batch_idx =
                 (fst (training_step self batch_data batch_idx),
                  Inr (binarize, loss_outputs, loss))
               \<and> snd (training_step self batch_data batch_idx) = Inr loss
               \<and> lookup loss_outputs ''binarization_loss'' =
                   Inr (if training_kl_condition self (training_binarize self)
                        then training_kl self batch_data else 0, 1)"
    if pos: "list_ex positive_weight (training_terms self batch_data)"
    by (simp add: training_step_def training_step_locals_eq [OF assms(1)]
        weighted_total_Some [OF pos] training_loss_outputs_def lookup_setitem_same)
  have train: "list_ex positive_weight (training_terms self batch_data) \<longrightarrow>
            (\<exists>binarize loss_outputs loss.
               training_step_locals self batch_data batch_idx =
                 (fst (training_step self batch_data batch_idx),
                  Inr (binarize, loss_outputs, loss))
               \<and> snd (training_step self batch_data batch_idx) = Inr loss
               \<and> lookup loss_outputs ''binarization_loss'' =
                   Inr (if training_kl_condition self (training_binarize self)
                        then training_kl self batch_data else 0, 1))"
    using tlocals by (rule impI)
  have fails: "(snd (validation_epoch_end self' (out0 # outs)) = Inl IndexError) =
           list_ex (\<lambda>(k, e). k \<noteq> ''binarization_loss'' \<and> is_bare e) (out_loss_outputs out0)"
    by (rule validation_epoch_end_index_error)
  show ?thesis
    by (rule conjI [OF val conjI [OF train fails]])
qed

theorem validation_loss_outputs_heterogeneous_witness:
  "(\<exists>r. snd (validation_step (at_step 2 4 0) batch13 0) = Inr r
      \<and> out_loss_outputs r =
          [(''a'', Weighted 2 1), (''b'', Weighted 3 0), (''binarization_loss'', Bare 0)]
      \<and> validation_epoch_end (at_step 2 4 0) [r] =
          ([Log ''val/a'' 2, Log ''val/b'' 3,
            Add_image ''attention_weights_mas'' [2] 0,
            Add_image ''attention_weights'' [6] 0],
           Inr ((at_step 2 4 0)\<lparr>log_train_images := True\<rparr>)))
   \<and> (\<exists>binarize loss_outputs loss.
        training_step_locals (at_step 2 4 0) batch13 0 =
          (fst (training_step (at_step 2 4 0) batch13 0), Inr (binarize, loss_outputs, loss))
        \<and> lookup loss_outputs ''binarization_loss'' = Inr (0, 1))"
proof -
  have res: "out_loss_outputs r =
      [(''a'', Weighted 2 1), (''b'', Weighted 3 0), (''binarization_loss'', Bare 0)]"
    if "snd (validation_step (at_step 2 4 0) batch13 0) = Inr r" for r
    using that
    by (auto simp: validation_step_eq [OF toy_len13] toy_terms toy_total toy_flags
        validation_loss_outputs_def)
  show ?thesis
    using validation_loss_outputs_heterogeneous [where self = "at_step 2 4 0"
        and batch_data = batch13 and batch_idx = 0 and self' = "at_step 2 4 0" and outs = "[]"
        and ?out0.0 = "\<lparr>out_loss_outputs = [], out_attn = None, out_attn_soft = None,
                            out_audiopaths = None\<rparr>"]
      res
    by (simp add: toy_len13 toy_terms toy_flags toy_config toy_outputs positive_weight_def) blast
qed

subsection \<open>The batch adapter\<close>

text \<open>
  C5. For a sequence of at least 13 tensors batch_dict returns the 14 named fields in
  their fixed order, the first 13 read from the sequence by position. With fewer than
  14 tensors the speaker id is the tensor of a list of zeros as long as the batch
  dimension of the text-length field; otherwise it is the 14th tensor, unchanged.
\<close>

theorem batch_dict_record:
  assumes "13 \<le> length batch_data"
  shows "batch_dict self batch_data =
    Inr [(''audio'', batch_data ! 0),
         (''audio_lens'', batch_data ! 1),
         (''text'', batch_data ! 2),
         (''text_lens'', batch_data ! 3),
         (''log_mel'', batch_data ! 4),
         (''log_mel_lens'', batch_data ! 5),
         (''align_prior_matrix'', batch_data ! 6),
         (''pitch'', batch_data ! 7),
         (''pitch_lens'', batch_data ! 8),
         (''voiced_mask'', batch_data ! 9),
         (''p_voiced'', batch_data ! 10),
         (''energy'', batch_data ! 11),
         (''energy_lens'', batch_data ! 12),
         (''speaker_id'',
            if length batch_data < 14
            then tensor self (replicate (size0 self (batch_data ! 3)) 0)
            else batch_data ! 13)]"
  using batch_dict_ok [OF assms, of self] by (simp add: speaker_of_def)

theorem batch_dict_record_witness:
  "batch_dict toy_model batch13 =
    Inr [(''audio'', [0]), (''audio_lens'', [1]), (''text'', [2]), (''text_lens'', [3, 3]),
         (''log_mel'', [4]), (''log_mel_lens'', [5]), (''align_prior_matrix'', [6]),
         (''pitch'', [7]), (''pitch_lens'', [8]), (''voiced_mask'', [9]), (''p_voiced'', [10]),
         (''energy'', [11]), (''energy_lens'', [12]), (''speaker_id'', [0, 0])]
   \<and> batch_dict toy_model batch14 =
    Inr [(''audio'', [0]), (''audio_lens'', [1]), (''text'', [2]), (''text_lens'', [3, 3]),
         (''log_mel'', [4]), (''log_mel_lens'', [5]), (''align_prior_matrix'', [6]),
         (''pitch'', [7]), (''pitch_lens'', [8]), (''voiced_mask'', [9]), (''p_voiced'', [10]),
         (''energy'', [11]), (''energy_lens'', [12]), (''speaker_id'', [7, 8])]"
  using batch_dict_record [of batch13 toy_model] batch_dict_record [of batch14 toy_model]
  by (simp add: batch13_def batch14_def toy_model_def)

subsection \<open>The optimizer\<close>

text \<open>
  C7, at the input where the code departs from it. With a non-empty
  \<^verbatim>\<open>finetune_layers\<close> and the name Adam, configure_optimizers raises NameError at line
  254 (the name \<^verbatim>\<open>model\<close> is not defined) after its first log line, and constructs no
  optimizer.
\<close>

theorem configure_optimizers_finetune_layers:
  "name (optim finetune_model) = ''Adam''
   \<and> configure_optimizers finetune_model =
       ([Info ''Initializing Adam optimizer''], Inl NameError)"
  by (simp add: configure_optimizers_def finetune_model_def toy_model_def)

subsection \<open>Inference and parse\<close>

text \<open>
  C8, at the input where the code departs from it. Called by keyword, with arguments
  the decorator accepts, on a model in training mode, generate_spectrogram emits no
  warning: \<^verbatim>\<open>self.eval()\<close> (line 304) clears the flag that the test of line 306 reads.
  The call returns the spectrogram and leaves the model in evaluation mode.
\<close>

theorem generate_spectrogram_no_warning:
  "training toy_model
   \<and> typecheck_inputs toy_model True [1, 2] 0 1
   \<and> generate_spectrogram toy_model True [1, 2] 0 1 =
       (toy_model\<lparr>training := False\<rparr>, [], Inr [0, 1, 2])"
  by (simp add: generate_spectrogram_def generate_spectrogram_body_def toy_model_def)

section \<open>Further properties\<close>

text \<open>
  X1. The gate of the binarization loss in validation_step is the computed flag together
  with \<open>0 \<le> kl_loss_start_iter \<le> global_step\<close>; it implies the flag, and a
  negative \<open>kl_loss_start_iter\<close> closes it at every step.
\<close>

theorem validation_kl_gate:
  "validation_kl_condition self (validation_binarize self) =
     (validation_binarize self
       \<and> 0 \<le> kl_loss_start_iter (train_config self)
       \<and> kl_loss_start_iter (train_config self) \<le> global_step self)
   \<and> (validation_kl_condition self (validation_binarize self) \<longrightarrow> validation_binarize self)
   \<and> (kl_loss_start_iter (train_config self) < 0 \<longrightarrow>
        \<not> validation_kl_condition self (validation_binarize self))"
  by (auto simp: validation_kl_condition_def)

theorem validation_kl_gate_witness:
  "validation_kl_condition (at_step 2 4 4) (validation_binarize (at_step 2 4 4))
   \<and> validation_binarize (at_step 2 4 4)
   \<and> \<not> validation_kl_condition (at_step 2 4 3) (validation_binarize (at_step 2 4 3))
   \<and> \<not> validation_kl_condition (at_step 0 (- 1) 9) (validation_binarize (at_step 0 (- 1) 9))"
  using validation_kl_gate [of "at_step 2 4 4"] validation_kl_gate [of "at_step 2 4 3"]
    validation_kl_gate [of "at_step 0 (- 1) 9"]
  by (simp add: toy_flags toy_config)

text \<open>
  X2. With an empty \<^verbatim>\<open>finetune_layers\<close>, configure_optimizers returns Adam or RAdam for
  these names, with the configured learning rate and weight decay; for any other name
  it logs that the optimizer is unrecognized and exits with status 1.
\<close>

theorem configure_optimizers_by_name:
  assumes "finetune_layers (train_config self) = []"
  shows "(name (optim self) = ''Adam'' \<longrightarrow>
            configure_optimizers self =
              ([Info ''Initializing Adam optimizer''],
               Inr (Adam (lr (optim self)) (weight_decay (optim self)))))
       \<and> (name (optim self) = ''RAdam'' \<longrightarrow>
            configure_optimizers self =
              ([Info ''Initializing RAdam optimizer''],
               Inr (RAdam (lr (optim self)) (weight_decay (optim self)))))
       \<and> (name (optim self) \<noteq> ''Adam'' \<and> name (optim self) \<noteq> ''RAdam'' \<longrightarrow>
            configure_optimizers self =
              ([Info (''Initializing '' @ name (optim self) @ '' optimizer''),
                Info (''Unrecognized optimizer '' @ name (optim self) @ ''!'')],
               Inl (SystemExit 1)))"
  by (simp add: configure_optimizers_dispatch [OF assms])

theorem configure_optimizers_by_name_witness:
  "configure_optimizers toy_model = ([Info ''Initializing Adam optimizer''], Inr (Adam (1 / 1000) 0))
   \<and> configure_optimizers (toy_model\<lparr>optim := \<lparr>name = ''RAdam'', lr = 1 / 100, weight_decay = 1\<rparr>\<rparr>)
       = ([Info ''Initializing RAdam optimizer''], Inr (RAdam (1 / 100) 1))
   \<and> configure_optimizers (toy_model\<lparr>optim := \<lparr>name = ''SGD'', lr = 1 / 100, weight_decay = 1\<rparr>\<rparr>)
       = ([Info ''Initializing SGD optimizer'', Info ''Unrecognized optimizer SGD!''],
          Inl (SystemExit 1))"
  using configure_optimizers_by_name [of toy_model]
    configure_optimizers_by_name
      [of "toy_model\<lparr>optim := \<lparr>name = ''RAdam'', lr = 1 / 100, weight_decay = 1\<rparr>\<rparr>"]
    configure_optimizers_by_name
      [of "toy_model\<lparr>optim := \<lparr>name = ''SGD'', lr = 1 / 100, weight_decay = 1\<rparr>\<rparr>"]
  by (simp add: toy_model_def)

text \<open>
  X3. A sequence of fewer than 13 tensors makes batch_dict raise IndexError.
\<close>

theorem batch_dict_too_short:
  assumes "length batch_data < 13"
  shows "batch_dict self batch_data = Inl IndexError"
proof -
  have "length batch_data \<in> {0, 1, 2, 3, 4, 5, 6, 7, 8, 9, 10, 11, 12}"
    using assms by (simp add: less_Suc_eq numeral_eq_Suc)
  then show ?thesis
    by (auto simp: batch_dict_def getitem_def)
qed

theorem batch_dict_too_short_witness:
  "batch_dict toy_model (take 12 batch13) = Inl IndexError
   \<and> batch_dict toy_model [[0], [1]] = Inl IndexError"
  using batch_dict_too_short [of "take 12 batch13" toy_model]
    batch_dict_too_short [of "[[0], [1]]" toy_model]
  by (simp add: batch13_def)

text \<open>
  X4. parse emits its warning exactly when the model is in training mode, and returns
  the same tensor in either mode: the tokens of the text, normalized when asked and a
  normalizer is set.
\<close>

theorem parse_in_training_mode:
  "parse self txt normalize_arg =
     (if training self then [Warning ''parse() is meant to be called in eval mode.''] else [],
      unsqueeze0 self (tensor self (tokenizer self
        (if normalize_arg
         then (case text_normalizer_call self of None \<Rightarrow> txt | Some f \<Rightarrow> f txt)
         else txt))))"
  by (simp add: parse_def Let_def)

end
